theory Spec2Isabelle
  imports Main "HOL-Library.AList"
begin

section \<open>Kubeconfig documents\<close>

text \<open>
  A parsed YAML value, as \<^verbatim>\<open>yaml.parse\<close> hands it to the program: null, booleans,
  numbers, strings, sequences and mappings. A mapping is an association list, in the
  insertion order a JavaScript object keeps.
\<close>

datatype yaml =
    YNull
  | YBool bool
  | YNum int
  | YStr string
  | YSeq "yaml list"
  | YMap "(string \<times> yaml) list"

type_synonym obj = "(string \<times> yaml) list"

text \<open>JavaScript truthiness of a parsed value (\<^verbatim>\<open>if (v)\<close>, \<^verbatim>\<open>!v\<close>, \<^verbatim>\<open>v || d\<close>).\<close>

fun truthy :: "yaml \<Rightarrow> bool" where
  "truthy YNull = False"
| "truthy (YBool b) = b"
| "truthy (YNum n) = (n \<noteq> 0)"
| "truthy (YStr s) = (s \<noteq> [])"
| "truthy (YSeq xs) = True"
| "truthy (YMap kvs) = True"

text \<open>
  A record of one of the arrays \<^verbatim>\<open>clusters\<close>, \<^verbatim>\<open>contexts\<close>, \<^verbatim>\<open>users\<close>:
  \<^verbatim>\<open>{ name: string; [key: string]: any }\<close>. The field \<open>props\<close> holds every key but
  \<^verbatim>\<open>name\<close>; for a user record the key \<^verbatim>\<open>user\<close> is among them.
\<close>

record entry =
  name :: string
  props :: obj

text \<open>
  The interface \<^verbatim>\<open>KubeConfig\<close>: three optional arrays, an optional
  \<^verbatim>\<open>current-context\<close> and passthrough keys. \<open>None\<close> is an absent key.
\<close>

record kubeconfig =
  clusters :: "entry list option"
  contexts :: "entry list option"
  users :: "entry list option"
  current_context :: "string option"
  passthrough :: obj

datatype error = YAMLParseError | TypeError | Error string

text \<open>
  The YAML library is outside the repository: the parser is a parameter. It throws
  (\<open>Inl\<close>), returns null (\<open>Inr None\<close>, an empty document) or returns a document.
\<close>

type_synonym parser = "string \<Rightarrow> error + kubeconfig option"

definition emptyDoc :: kubeconfig where
  "emptyDoc = \<lparr>clusters = None, contexts = None, users = None,
     current_context = None, passthrough = []\<rparr>"

text \<open>\<^verbatim>\<open>Object.keys(existing).length === 0\<close>\<close>

definition noKeys :: "kubeconfig \<Rightarrow> bool" where
  "noKeys k \<longleftrightarrow> clusters k = None \<and> contexts k = None \<and> users k = None \<and>
     current_context k = None \<and> passthrough k = []"

subsection \<open>mergeKubeconfig\<close>

text \<open>\<^verbatim>\<open>Array.prototype.findIndex\<close>; \<open>None\<close> stands for the result \<^verbatim>\<open>-1\<close>.\<close>

fun findIndex :: "('a \<Rightarrow> bool) \<Rightarrow> 'a list \<Rightarrow> nat option" where
  "findIndex p [] = None"
| "findIndex p (x # xs) =
     (if p x then Some 0 else map_option Suc (findIndex p xs))"

text \<open>
  One round of the loop body:
  \<^verbatim>\<open>const idx = existing.clusters.findIndex(c => c.name === cluster.name);
  if (idx >= 0) existing.clusters[idx] = cluster; else existing.clusters.push(cluster);\<close>
\<close>

definition mergeRecord :: "entry list \<Rightarrow> entry \<Rightarrow> entry list" where
  "mergeRecord existing r =
     (case findIndex (\<lambda>c. name c = name r) existing of
        Some idx \<Rightarrow> existing[idx := r]
      | None \<Rightarrow> existing @ [r])"

text \<open>
  The three loops have the same shape:
  \<^verbatim>\<open>if (!existing.clusters) existing.clusters = [];
  for (const cluster of newCfg.clusters || []) { ... }\<close>
\<close>

definition orEmpty :: "'a list option \<Rightarrow> 'a list" where
  "orEmpty a = (case a of None \<Rightarrow> [] | Some xs \<Rightarrow> xs)"

definition mergeArray :: "entry list option \<Rightarrow> entry list option \<Rightarrow> entry list" where
  "mergeArray existing incoming = foldl mergeRecord (orEmpty existing) (orEmpty incoming)"

text \<open>
  The body of \<^verbatim>\<open>mergeKubeconfig\<close> once both documents are objects and the existing
  one has a key. The guard \<^verbatim>\<open>if (newCfg['current-context'])\<close> is a truthiness test:
  an empty string does not pass it.
\<close>

definition mergeDocs :: "kubeconfig \<Rightarrow> kubeconfig \<Rightarrow> kubeconfig" where
  "mergeDocs existing newCfg =
     existing\<lparr>
       clusters := Some (mergeArray (clusters existing) (clusters newCfg)),
       contexts := Some (mergeArray (contexts existing) (contexts newCfg)),
       users := Some (mergeArray (users existing) (users newCfg)),
       current_context :=
         (case current_context newCfg of
            Some c \<Rightarrow> if c \<noteq> [] then Some c else current_context existing
          | None \<Rightarrow> current_context existing)\<rparr>"

text \<open>
  The part of \<^verbatim>\<open>mergeKubeconfig\<close> after the two parses. A null or keyless existing
  document returns the incoming one as it is; a null incoming document under an existing one
  with keys raises at \<^verbatim>\<open>newCfg.clusters\<close>.
\<close>

definition mergeParsed :: "kubeconfig option \<Rightarrow> kubeconfig option \<Rightarrow> error + kubeconfig option" where
  "mergeParsed existing newCfg =
     (case existing of
        None \<Rightarrow> Inr newCfg
      | Some e \<Rightarrow>
          if noKeys e then Inr newCfg
          else (case newCfg of
                  None \<Rightarrow> Inl TypeError
                | Some n \<Rightarrow> Inr (Some (mergeDocs e n))))"

text \<open>
  \<^verbatim>\<open>existing = existingConfig ? yaml.parse(existingConfig) : {}\<close>, with \<^verbatim>\<open>{}\<close> when the
  parse throws.
\<close>

definition parseExisting :: "parser \<Rightarrow> string \<Rightarrow> kubeconfig option" where
  "parseExisting parse existingConfig =
     (if existingConfig \<noteq> [] then
        (case parse existingConfig of Inl _ \<Rightarrow> Some emptyDoc | Inr d \<Rightarrow> d)
      else Some emptyDoc)"

definition mergeKubeconfig :: "parser \<Rightarrow> string \<Rightarrow> string \<Rightarrow> error + kubeconfig option" where
  "mergeKubeconfig parse existingConfig newConfig =
     (let existing = parseExisting parse existingConfig in
      case parse newConfig of
        Inl _ \<Rightarrow> Inr existing
      | Inr newCfg \<Rightarrow> mergeParsed existing newCfg)"

subsection \<open>The merge in the words of the specification\<close>

text \<open>
  ``For each incoming record, find an existing record with the same name; replace in place
  if found, else append.'' The first record of that name is the one replaced.
\<close>

fun spec_replaceOrAppend :: "entry \<Rightarrow> entry list \<Rightarrow> entry list" where
  "spec_replaceOrAppend r [] = [r]"
| "spec_replaceOrAppend r (c # cs) = (if name c = name r then r # cs else c # spec_replaceOrAppend r cs)"

definition spec_mergeByName :: "entry list \<Rightarrow> entry list \<Rightarrow> entry list" where
  "spec_mergeByName existing incoming = foldl (\<lambda>acc r. spec_replaceOrAppend r acc) existing incoming"

text \<open>Names are unique within each of the three arrays.\<close>

definition uniqueNames :: "kubeconfig \<Rightarrow> bool" where
  "uniqueNames k \<longleftrightarrow> distinct (map name (orEmpty (clusters k))) \<and>
     distinct (map name (orEmpty (contexts k))) \<and> distinct (map name (orEmpty (users k)))"

definition hasAllArrays :: "kubeconfig \<Rightarrow> bool" where
  "hasAllArrays k \<longleftrightarrow> clusters k \<noteq> None \<and> contexts k \<noteq> None \<and> users k \<noteq> None"

text \<open>
  \<^verbatim>\<open>!existing || Object.keys(existing).length === 0\<close> is the negation of \<open>hasKeys\<close>.
\<close>

definition hasKeys :: "kubeconfig option \<Rightarrow> bool" where
  "hasKeys d = (case d of None \<Rightarrow> False | Some k \<Rightarrow> \<not> noKeys k)"

text \<open>
  The incoming documents that merging into themselves leaves as they are: null, keyless, or
  carrying all three arrays with unique names.
\<close>

definition selfMergeStable :: "kubeconfig option \<Rightarrow> bool" where
  "selfMergeStable d =
     (case d of None \<Rightarrow> True | Some b \<Rightarrow> noKeys b \<or> hasAllArrays b \<and> uniqueNames b)"

subsection \<open>Sample documents\<close>

text \<open>
  An existing kubeconfig with cluster \<open>A\<close>, an incoming one with \<open>A\<close> (another server) and
  \<open>B\<close>, and a parser that knows a few texts and throws on every other one.
\<close>

definition clusterA_old :: entry where
  "clusterA_old = \<lparr>name = ''A'', props = [(''cluster'', YMap [(''server'', YStr ''https://old.example:443'')])]\<rparr>"
definition clusterA_new :: entry where
  "clusterA_new = \<lparr>name = ''A'', props = [(''cluster'', YMap [(''server'', YStr ''https://new.example:443'')])]\<rparr>"
definition clusterB :: entry where
  "clusterB = \<lparr>name = ''B'', props = [(''cluster'', YMap [(''server'', YStr ''https://b.example:443'')])]\<rparr>"
definition contextB :: entry where
  "contextB = \<lparr>name = ''B'', props = [(''context'', YMap [(''cluster'', YStr ''B''), (''user'', YStr ''u'')])]\<rparr>"
definition userU :: entry where
  "userU = \<lparr>name = ''u'', props = [(''user'', YMap [(''token'', YStr ''t'')])]\<rparr>"

definition docExisting :: kubeconfig where
  "docExisting = \<lparr>clusters = Some [clusterA_old], contexts = None, users = None,
     current_context = Some ''A'', passthrough = [(''apiVersion'', YStr ''v1'')]\<rparr>"
definition docIncoming :: kubeconfig where
  "docIncoming = \<lparr>clusters = Some [clusterA_new, clusterB], contexts = Some [contextB],
     users = Some [userU], current_context = Some ''B'', passthrough = []\<rparr>"
definition docNoContext :: kubeconfig where
  "docNoContext = \<lparr>clusters = Some [clusterB], contexts = Some [contextB],
     users = Some [userU], current_context = Some [], passthrough = []\<rparr>"
definition docPartial :: kubeconfig where
  "docPartial = \<lparr>clusters = Some [clusterB], contexts = None, users = None,
     current_context = None, passthrough = []\<rparr>"

definition docMerged :: kubeconfig where
  "docMerged = \<lparr>clusters = Some [clusterA_new, clusterB], contexts = Some [contextB],
     users = Some [userU], current_context = Some ''B'',
     passthrough = [(''apiVersion'', YStr ''v1'')]\<rparr>"

definition sampleParse :: parser where
  "sampleParse s =
     (if s = ''existing'' then Inr (Some docExisting)
      else if s = ''incoming'' then Inr (Some docIncoming)
      else if s = ''nocontext'' then Inr (Some docNoContext)
      else if s = ''partial'' then Inr (Some docPartial)
      else if s = ''merged'' then Inr (Some docMerged)
      else if s = ''{}'' then Inr (Some emptyDoc)
      else if s = ''#'' then Inr None
      else Inl YAMLParseError)"

lemmas sample_defs = sampleParse_def docMerged_def docExisting_def docIncoming_def docNoContext_def docPartial_def
  clusterA_old_def clusterA_new_def clusterB_def contextB_def userU_def emptyDoc_def

section \<open>Lemmas on the merge loop\<close>

lemma findIndex_None_iff: "findIndex p xs = None \<longleftrightarrow> (\<forall>x\<in>set xs. \<not> p x)"
  by (induction xs) auto

lemma findIndex_Some:
  "findIndex p xs = Some i \<Longrightarrow> i < length xs \<and> p (xs ! i) \<and> (\<forall>j<i. \<not> p (xs ! j))"
proof (induction xs arbitrary: i)
  case Nil
  then show ?case by simp
next
  case (Cons x xs)
  show ?case
  proof (cases "p x")
    case True
    with Cons.prems show ?thesis by simp
  next
    case False
    with Cons.prems obtain k where k: "findIndex p xs = Some k" "i = Suc k"
      by auto
    from Cons.IH[OF k(1)] False k(2) show ?thesis
      by (auto simp: less_Suc_eq_0_disj)
  qed
qed

lemma mergeRecord_spec_replaceOrAppend: "mergeRecord xs r = spec_replaceOrAppend r xs"
proof (induction xs)
  case Nil
  then show ?case by (simp add: mergeRecord_def)
next
  case (Cons c cs)
  then show ?case
    by (cases "findIndex (\<lambda>c. name c = name r) cs") (auto simp: mergeRecord_def)
qed

lemma names_spec_replaceOrAppend:
  "map name (spec_replaceOrAppend r xs) = (if name r \<in> name ` set xs then map name xs else map name xs @ [name r])"
  by (induction xs) auto

lemma nameset_spec_replaceOrAppend: "name ` set (spec_replaceOrAppend r xs) = insert (name r) (name ` set xs)"
  by (induction xs) auto

lemma distinct_spec_replaceOrAppend: "distinct (map name xs) \<Longrightarrow> distinct (map name (spec_replaceOrAppend r xs))"
  by (simp add: names_spec_replaceOrAppend)

lemma foldl_mergeRecord_spec_replaceOrAppend: "foldl mergeRecord xs ns = foldl (\<lambda>acc r. spec_replaceOrAppend r acc) xs ns"
  by (induction ns arbitrary: xs) (simp_all add: mergeRecord_spec_replaceOrAppend)

lemma distinct_foldl_spec_replaceOrAppend:
  "distinct (map name xs) \<Longrightarrow> distinct (map name (foldl (\<lambda>acc r. spec_replaceOrAppend r acc) xs ns))"
  by (induction ns arbitrary: xs) (simp_all add: distinct_spec_replaceOrAppend)

lemma spec_replaceOrAppend_absorb: "name r = name s \<Longrightarrow> spec_replaceOrAppend s (spec_replaceOrAppend r xs) = spec_replaceOrAppend s xs"
  by (induction xs) auto

lemma spec_replaceOrAppend_commute:
  "name s \<in> name ` set xs \<Longrightarrow> name s \<noteq> name r \<Longrightarrow>
   spec_replaceOrAppend s (spec_replaceOrAppend r xs) = spec_replaceOrAppend r (spec_replaceOrAppend s xs)"
  by (induction xs) auto

lemma names_foldl_spec_replaceOrAppend_subset:
  "name ` set ns \<subseteq> name ` set xs \<Longrightarrow>
   map name (foldl (\<lambda>acc r. spec_replaceOrAppend r acc) xs ns) = map name xs"
proof (induction ns arbitrary: xs)
  case Nil
  then show ?case by simp
next
  case (Cons s ns)
  from Cons.prems have s: "name s \<in> name ` set xs" and ns: "name ` set ns \<subseteq> name ` set xs"
    by simp_all
  have "name ` set ns \<subseteq> name ` set (spec_replaceOrAppend s xs)"
    using ns by (auto simp: nameset_spec_replaceOrAppend)
  from Cons.IH[OF this] s show ?case by (simp add: names_spec_replaceOrAppend)
qed

lemma spec_replaceOrAppend_last_wins:
  "name ` set ns \<subseteq> name ` set xs \<Longrightarrow>
   spec_replaceOrAppend r (foldl (\<lambda>acc r. spec_replaceOrAppend r acc) (spec_replaceOrAppend r xs) ns) =
   spec_replaceOrAppend r (foldl (\<lambda>acc r. spec_replaceOrAppend r acc) xs ns)"
proof (induction ns arbitrary: xs)
  case Nil
  then show ?case by (simp add: spec_replaceOrAppend_absorb)
next
  case (Cons s ns)
  show ?case
  proof (cases "name s = name r")
    case True
    then show ?thesis by (simp add: spec_replaceOrAppend_absorb)
  next
    case False
    from Cons.prems have s: "name s \<in> name ` set xs" by simp
    have sub: "name ` set ns \<subseteq> name ` set (spec_replaceOrAppend s xs)"
      using Cons.prems by (auto simp: nameset_spec_replaceOrAppend)
    have "spec_replaceOrAppend s (spec_replaceOrAppend r xs) = spec_replaceOrAppend r (spec_replaceOrAppend s xs)"
      using s False by (rule spec_replaceOrAppend_commute)
    then show ?thesis using Cons.IH[OF sub] by simp
  qed
qed

lemma nameset_foldl_spec_replaceOrAppend:
  "name ` set (foldl (\<lambda>acc r. spec_replaceOrAppend r acc) xs ns) = name ` set xs \<union> name ` set ns"
  by (induction ns arbitrary: xs) (auto simp: nameset_spec_replaceOrAppend)

lemma foldl_spec_replaceOrAppend_idem:
  "foldl (\<lambda>acc r. spec_replaceOrAppend r acc) (foldl (\<lambda>acc r. spec_replaceOrAppend r acc) xs ns) ns =
   foldl (\<lambda>acc r. spec_replaceOrAppend r acc) xs ns"
proof (induction ns rule: rev_induct)
  case Nil
  then show ?case by simp
next
  case (snoc r ns)
  let ?R0 = "foldl (\<lambda>acc r. spec_replaceOrAppend r acc) xs ns"
  have sub: "name ` set ns \<subseteq> name ` set ?R0"
    by (simp add: nameset_foldl_spec_replaceOrAppend)
  have "foldl (\<lambda>acc r. spec_replaceOrAppend r acc) (spec_replaceOrAppend r ?R0) (ns @ [r]) =
        spec_replaceOrAppend r (foldl (\<lambda>acc r. spec_replaceOrAppend r acc) (spec_replaceOrAppend r ?R0) ns)"
    by simp
  also have "\<dots> = spec_replaceOrAppend r (foldl (\<lambda>acc r. spec_replaceOrAppend r acc) ?R0 ns)"
    using sub by (rule spec_replaceOrAppend_last_wins)
  also have "\<dots> = spec_replaceOrAppend r ?R0"
    using snoc.IH by simp
  finally show ?case by simp
qed

lemma spec_replaceOrAppend_member_distinct:
  "distinct (map name xs) \<Longrightarrow> r \<in> set xs \<Longrightarrow> spec_replaceOrAppend r xs = xs"
  by (induction xs) (auto simp: image_iff)

lemma foldl_spec_replaceOrAppend_self:
  "distinct (map name xs) \<Longrightarrow> set ns \<subseteq> set xs \<Longrightarrow> foldl (\<lambda>acc r. spec_replaceOrAppend r acc) xs ns = xs"
  by (induction ns) (simp_all add: spec_replaceOrAppend_member_distinct)


text \<open>
  What one round does, by index: with a record of that name, the first such index is
  overwritten and nothing else changes; with none, the record goes to the end.
\<close>

lemma mergeRecord_replaces_in_place:
  assumes "name r \<in> name ` set xs"
  shows "\<exists>i<length xs. name (xs ! i) = name r \<and> (\<forall>j<i. name (xs ! j) \<noteq> name r) \<and>
           mergeRecord xs r = xs[i := r]"
proof -
  from assms have "findIndex (\<lambda>c. name c = name r) xs \<noteq> None"
    by (auto simp: findIndex_None_iff)
  then obtain i where i: "findIndex (\<lambda>c. name c = name r) xs = Some i" by blast
  from findIndex_Some[OF i] i show ?thesis
    by (auto simp: mergeRecord_def)
qed

lemma mergeRecord_appends:
  assumes "name r \<notin> name ` set xs"
  shows "mergeRecord xs r = xs @ [r]"
proof -
  from assms have "\<forall>x\<in>set xs. name x \<noteq> name r"
    by (metis image_eqI)
  then have "findIndex (\<lambda>c. name c = name r) xs = None"
    by (simp add: findIndex_None_iff)
  then show ?thesis by (simp add: mergeRecord_def)
qed

lemma mergeArray_spec: "mergeArray e n = spec_mergeByName (orEmpty e) (orEmpty n)"
  by (simp add: mergeArray_def spec_mergeByName_def foldl_mergeRecord_spec_replaceOrAppend)

lemma mergeArray_idem: "mergeArray (Some (mergeArray e n)) n = mergeArray e n"
  by (simp add: mergeArray_def foldl_mergeRecord_spec_replaceOrAppend orEmpty_def foldl_spec_replaceOrAppend_idem)

lemma mergeDocs_idem: "mergeDocs (mergeDocs a b) b = mergeDocs a b"
  by (cases "current_context b") (simp_all add: mergeDocs_def mergeArray_idem)

lemma mergeDocs_hasKeys: "\<not> noKeys (mergeDocs a b)"
  by (simp add: mergeDocs_def noKeys_def)

lemma mergeArray_self:
  "distinct (map name xs) \<Longrightarrow> mergeArray (Some xs) (Some xs) = xs"
  by (simp add: mergeArray_def foldl_mergeRecord_spec_replaceOrAppend orEmpty_def foldl_spec_replaceOrAppend_self)

lemma mergeDocs_self:
  assumes "hasAllArrays b" and "uniqueNames b"
  shows "mergeDocs b b = b"
proof -
  from assms(1) obtain cs xs us where
    arrays: "clusters b = Some cs" "contexts b = Some xs" "users b = Some us"
    by (auto simp: hasAllArrays_def)
  with assms(2) have d: "distinct (map name cs)" "distinct (map name xs)" "distinct (map name us)"
    by (simp_all add: uniqueNames_def orEmpty_def)
  show ?thesis
    by (cases "current_context b") (simp_all add: mergeDocs_def arrays d mergeArray_self)
qed

lemma mergeParsed_idem_keys:
  assumes "mergeParsed (Some a) B = Inr M" and "\<not> noKeys a"
  shows "mergeParsed M B = Inr M"
proof (cases B)
  case None
  with assms show ?thesis by (simp add: mergeParsed_def)
next
  case (Some b)
  with assms have M: "M = Some (mergeDocs a b)" by (auto simp: mergeParsed_def)
  show ?thesis
    unfolding M Some by (simp add: mergeParsed_def mergeDocs_hasKeys mergeDocs_idem)
qed

lemma mergeParsed_self:
  assumes "case B of None \<Rightarrow> True | Some b \<Rightarrow> noKeys b \<or> hasAllArrays b \<and> uniqueNames b"
  shows "mergeParsed B B = Inr B"
  using assms by (auto simp: mergeParsed_def mergeDocs_self split: option.splits)

lemma uniqueNames_mergeDocs: "uniqueNames e \<Longrightarrow> uniqueNames (mergeDocs e n)"
  by (simp add: uniqueNames_def mergeDocs_def mergeArray_def foldl_mergeRecord_spec_replaceOrAppend
        distinct_foldl_spec_replaceOrAppend orEmpty_def)

lemma uniqueNames_emptyDoc: "uniqueNames emptyDoc"
  by (simp add: uniqueNames_def emptyDoc_def orEmpty_def)

lemma uniqueNames_parseExisting:
  assumes "\<forall>d. parse existingConfig = Inr (Some d) \<longrightarrow> uniqueNames d"
      and "parseExisting parse existingConfig = Some e"
  shows "uniqueNames e"
  using assms
  by (auto simp: parseExisting_def uniqueNames_emptyDoc split: if_splits sum.splits)

section \<open>Properties of the merge\<close>

text \<open>
  C10: when the incoming text does not parse, \<^verbatim>\<open>mergeKubeconfig\<close> returns the existing
  document as parsed, or the empty document when the existing text is empty or does not
  parse; nothing is merged and nothing is raised.
\<close>

theorem mergeKubeconfig_incoming_unparseable:
  assumes "parse newConfig = Inl err"
  shows "mergeKubeconfig parse existingConfig newConfig =
           Inr (if existingConfig = [] then Some emptyDoc
                else case parse existingConfig of
                       Inl _ \<Rightarrow> Some emptyDoc
                     | Inr d \<Rightarrow> d)"
  using assms by (simp add: mergeKubeconfig_def parseExisting_def)

theorem mergeKubeconfig_incoming_unparseable_witness:
  "sampleParse ''%%%'' = Inl YAMLParseError \<and>
   mergeKubeconfig sampleParse ''existing'' ''%%%'' = Inr (Some docExisting) \<and>
   mergeKubeconfig sampleParse [] ''%%%'' = Inr (Some emptyDoc) \<and>
   mergeKubeconfig sampleParse ''%'' ''%%%'' = Inr (Some emptyDoc)"
proof -
  have bad: "sampleParse ''%%%'' = Inl YAMLParseError"
    by (simp add: sampleParse_def)
  show ?thesis
    using bad
      mergeKubeconfig_incoming_unparseable[of sampleParse "''%%%''" YAMLParseError "''existing''"]
      mergeKubeconfig_incoming_unparseable[of sampleParse "''%%%''" YAMLParseError "[]"]
      mergeKubeconfig_incoming_unparseable[of sampleParse "''%%%''" YAMLParseError "''%''"]
    by (simp add: sampleParse_def)
qed

text \<open>
  C1, as the code has it: when the existing text is not empty and parses to a document with
  at least one key, and the incoming text parses to a document, \<^verbatim>\<open>mergeKubeconfig\<close>
  returns a document whose \<^verbatim>\<open>clusters\<close>, \<^verbatim>\<open>contexts\<close> and \<^verbatim>\<open>users\<close> are the
  existing arrays (empty when absent) with every incoming record, in order, put in place of
  the first existing record of its name or appended when there is none; its
  \<^verbatim>\<open>current-context\<close> is the incoming one when that is a non-empty string and the
  existing one otherwise; the passthrough keys are the existing ones.
\<close>

theorem mergeKubeconfig_by_name:
  assumes "existingConfig \<noteq> []"
      and "parse existingConfig = Inr (Some e)"
      and "\<not> noKeys e"
      and "parse newConfig = Inr (Some n)"
  shows "\<exists>r. mergeKubeconfig parse existingConfig newConfig = Inr (Some r) \<and>
           clusters r = Some (spec_mergeByName (orEmpty (clusters e)) (orEmpty (clusters n))) \<and>
           contexts r = Some (spec_mergeByName (orEmpty (contexts e)) (orEmpty (contexts n))) \<and>
           users r = Some (spec_mergeByName (orEmpty (users e)) (orEmpty (users n))) \<and>
           current_context r =
             (case current_context n of
                None \<Rightarrow> current_context e
              | Some c \<Rightarrow> if c = [] then current_context e else Some c) \<and>
           passthrough r = passthrough e"
  using assms
  by (cases "current_context n")
     (simp_all add: mergeKubeconfig_def parseExisting_def mergeParsed_def mergeDocs_def mergeArray_spec)

theorem mergeKubeconfig_by_name_witness:
  "\<exists>r. mergeKubeconfig sampleParse ''existing'' ''incoming'' = Inr (Some r) \<and>
       clusters r = Some [clusterA_new, clusterB] \<and>
       contexts r = Some [contextB] \<and>
       users r = Some [userU] \<and>
       current_context r = Some ''B'' \<and>
       passthrough r = [(''apiVersion'', YStr ''v1'')]"
  using mergeKubeconfig_by_name[of "''existing''" sampleParse docExisting "''incoming''" docIncoming]
  by (simp add: sample_defs noKeys_def orEmpty_def spec_mergeByName_def)

text \<open>
  C1 as stated fails in two places. An existing text \<^verbatim>\<open>{}\<close> parses to a document without
  keys: the incoming document is returned as it is, and its absent \<^verbatim>\<open>users\<close> array stays
  absent instead of being initialised. An incoming \<^verbatim>\<open>current-context: ""\<close> is defined
  but falsy: the existing value \<open>A\<close> is kept.
\<close>

theorem mergeKubeconfig_by_name_counterexample:
  "mergeKubeconfig sampleParse ''{}'' ''partial'' = Inr (Some docPartial) \<and>
   users docPartial = None \<and>
   current_context docNoContext = Some [] \<and>
   mergeKubeconfig sampleParse ''existing'' ''nocontext'' =
     Inr (Some \<lparr>clusters = Some [clusterA_old, clusterB], contexts = Some [contextB],
       users = Some [userU], current_context = Some ''A'',
       passthrough = [(''apiVersion'', YStr ''v1'')]\<rparr>)"
  by (simp add: sample_defs mergeKubeconfig_def parseExisting_def mergeParsed_def mergeDocs_def
        noKeys_def mergeArray_def orEmpty_def mergeRecord_def)

text \<open>
  C5, as the code has it. \<^verbatim>\<open>mergeKubeconfig\<close> takes texts and returns a document, so the
  second merge reads a text \<open>A'\<close> that parses back to the first result \<open>M\<close>. Merging the
  same incoming text into it gives \<open>M\<close> again, provided the first existing document had a
  key, or the incoming text does not parse, or the incoming document is null, keyless, or has
  all three arrays with unique names.
\<close>

theorem mergeKubeconfig_idempotent:
  assumes first: "mergeKubeconfig parse A B = Inr M"
      and reread: "parseExisting parse A' = M"
      and safe: "hasKeys (parseExisting parse A) \<or>
                 (case parse B of Inl _ \<Rightarrow> True | Inr b \<Rightarrow> selfMergeStable b)"
  shows "mergeKubeconfig parse A' B = Inr M"
proof (cases "parse B")
  case (Inl err)
  with first reread show ?thesis by (simp add: mergeKubeconfig_def)
next
  case (Inr b)
  with first have m: "mergeParsed (parseExisting parse A) b = Inr M"
    by (simp add: mergeKubeconfig_def)
  have "mergeParsed M b = Inr M"
  proof (cases "hasKeys (parseExisting parse A)")
    case True
    then obtain a where a: "parseExisting parse A = Some a" "\<not> noKeys a"
      by (auto simp: hasKeys_def split: option.splits)
    from m a show ?thesis by (simp add: mergeParsed_idem_keys)
  next
    case False
    with m have Mb: "M = b"
      by (auto simp: mergeParsed_def hasKeys_def split: option.splits if_splits)
    from False safe Inr
    have "case b of None \<Rightarrow> True | Some b' \<Rightarrow> noKeys b' \<or> hasAllArrays b' \<and> uniqueNames b'"
      by (simp add: selfMergeStable_def)
    then show ?thesis unfolding Mb by (rule mergeParsed_self)
  qed
  with Inr reread show ?thesis by (simp add: mergeKubeconfig_def)
qed

theorem mergeKubeconfig_idempotent_witness:
  "mergeKubeconfig sampleParse ''existing'' ''incoming'' = Inr (Some docMerged) \<and>
   mergeKubeconfig sampleParse ''merged'' ''incoming'' = Inr (Some docMerged)"
proof -
  have first: "mergeKubeconfig sampleParse ''existing'' ''incoming'' = Inr (Some docMerged)"
    by (simp add: sample_defs mergeKubeconfig_def parseExisting_def mergeParsed_def mergeDocs_def
          noKeys_def mergeArray_def orEmpty_def mergeRecord_def)
  have reread: "parseExisting sampleParse ''merged'' = Some docMerged"
    by (simp add: parseExisting_def sampleParse_def)
  have safe: "hasKeys (parseExisting sampleParse ''existing'') \<or>
       (case sampleParse ''incoming'' of Inl _ \<Rightarrow> True | Inr b \<Rightarrow> selfMergeStable b)"
    by (simp add: hasKeys_def parseExisting_def sampleParse_def docExisting_def noKeys_def)
  from first mergeKubeconfig_idempotent[OF first reread safe] show ?thesis by simp
qed

text \<open>
  C5 as stated fails when there is no existing kubeconfig and the incoming document lacks an
  array: the first merge returns the incoming document as it is, the second one adds empty
  \<^verbatim>\<open>contexts\<close> and \<^verbatim>\<open>users\<close> arrays to it.
\<close>

theorem mergeKubeconfig_idempotent_counterexample:
  "mergeKubeconfig sampleParse [] ''partial'' = Inr (Some docPartial) \<and>
   parseExisting sampleParse ''partial'' = Some docPartial \<and>
   mergeKubeconfig sampleParse ''partial'' ''partial'' =
     Inr (Some (docPartial\<lparr>contexts := Some [], users := Some []\<rparr>)) \<and>
   docPartial\<lparr>contexts := Some [], users := Some []\<rparr> \<noteq> docPartial"
  by (simp add: sample_defs mergeKubeconfig_def parseExisting_def mergeParsed_def mergeDocs_def
        noKeys_def mergeArray_def orEmpty_def mergeRecord_def)

text \<open>
  C6: when the documents the two texts parse to have unique names in each of their arrays,
  so has every document \<^verbatim>\<open>mergeKubeconfig\<close> returns.
\<close>

theorem mergeKubeconfig_unique_names:
  assumes ex: "\<forall>d. parse existingConfig = Inr (Some d) \<longrightarrow> uniqueNames d"
      and new: "\<forall>d. parse newConfig = Inr (Some d) \<longrightarrow> uniqueNames d"
      and res: "mergeKubeconfig parse existingConfig newConfig = Inr (Some r)"
  shows "uniqueNames r"
proof (cases "parse newConfig")
  case (Inl err)
  with res have "parseExisting parse existingConfig = Some r"
    by (simp add: mergeKubeconfig_def)
  with ex show ?thesis by (rule uniqueNames_parseExisting)
next
  case (Inr newCfg)
  with res have m: "mergeParsed (parseExisting parse existingConfig) newCfg = Inr (Some r)"
    by (simp add: mergeKubeconfig_def)
  show ?thesis
  proof (cases "hasKeys (parseExisting parse existingConfig)")
    case True
    then obtain e where e: "parseExisting parse existingConfig = Some e" "\<not> noKeys e"
      by (auto simp: hasKeys_def split: option.splits)
    with m obtain n where n: "newCfg = Some n" "r = mergeDocs e n"
      by (auto simp: mergeParsed_def split: option.splits)
    from ex e(1) have "uniqueNames e" by (rule uniqueNames_parseExisting)
    then show ?thesis unfolding n(2) by (rule uniqueNames_mergeDocs)
  next
    case False
    with m have "newCfg = Some r"
      by (auto simp: mergeParsed_def hasKeys_def split: option.splits if_splits)
    with Inr new show ?thesis by simp
  qed
qed

theorem mergeKubeconfig_unique_names_witness:
  "uniqueNames docExisting \<and> uniqueNames docIncoming \<and>
   mergeKubeconfig sampleParse ''existing'' ''incoming'' = Inr (Some docMerged) \<and>
   uniqueNames docMerged"
proof -
  have ue: "uniqueNames docExisting" and ui: "uniqueNames docIncoming"
    by (simp_all add: uniqueNames_def sample_defs orEmpty_def)
  have ex: "\<forall>d. sampleParse ''existing'' = Inr (Some d) \<longrightarrow> uniqueNames d"
    using ue by (simp add: sampleParse_def)
  have new: "\<forall>d. sampleParse ''incoming'' = Inr (Some d) \<longrightarrow> uniqueNames d"
    using ui by (simp add: sampleParse_def)
  have res: "mergeKubeconfig sampleParse ''existing'' ''incoming'' = Inr (Some docMerged)"
    by (simp add: sample_defs mergeKubeconfig_def parseExisting_def mergeParsed_def mergeDocs_def
          noKeys_def mergeArray_def orEmpty_def mergeRecord_def)
  from ue ui res mergeKubeconfig_unique_names[OF ex new res] show ?thesis by simp
qed

section \<open>Credential rewriter\<close>

text \<open>
  What the two implementations of \<^verbatim>\<open>addAzKubeloginToKubeconfig\<close> read from the process:
  \<^verbatim>\<open>process.platform\<close>, \<^verbatim>\<open>process.env.PATH\<close>, \<^verbatim>\<open>process.env.NODE_ENV\<close>,
  \<^verbatim>\<open>__dirname\<close> and \<^verbatim>\<open>process.resourcesPath\<close>.
\<close>

record procEnv =
  platform :: string
  envPATH :: "string option"
  nodeEnv :: "string option"
  dirname :: string
  processResourcesPath :: "string option"

record executablePaths =
  pythonCmd :: string
  azKubeloginPath :: string
  azCliBinPath :: string
  azCliCmd :: string

definition getExecutablePaths ::
  "(string list \<Rightarrow> string) \<Rightarrow> procEnv \<Rightarrow> bool \<Rightarrow> string \<Rightarrow> executablePaths" where
  "getExecutablePaths join env isDev resourcesPath =
     (let externalToolsBinPath = join [resourcesPath, ''external-tools'', ''bin''] in
      if platform env = ''win32'' then
        (let azCliWindowsPath = join [resourcesPath, ''external-tools'', ''az-cli'', ''win32''];
             bin = join [azCliWindowsPath, ''bin'']
         in \<lparr>pythonCmd = join [azCliWindowsPath, ''python.exe''],
              azKubeloginPath = join [externalToolsBinPath, ''az-kubelogin.py''],
              azCliBinPath = bin,
              azCliCmd = join [bin, ''az.cmd'']\<rparr>)
      else
        (let bin = join [resourcesPath, ''external-tools'', ''az-cli'', platform env, ''bin'']
         in \<lparr>pythonCmd = join [bin, ''python3''],
              azKubeloginPath = join [externalToolsBinPath, ''az-kubelogin.py''],
              azCliBinPath = bin,
              azCliCmd = join [bin, ''az'']\<rparr>))"

definition pathSeparator :: "procEnv \<Rightarrow> string" where
  "pathSeparator env = (if platform env = ''win32'' then '';'' else '':'')"

definition currentPath :: "procEnv \<Rightarrow> string" where
  "currentPath env = (case envPATH env of None \<Rightarrow> [] | Some p \<Rightarrow> p)"

definition serverId :: string where
  "serverId = ''6dae42f8-4368-4678-94ff-3960e28e3630''"

definition envVar :: "string \<Rightarrow> string \<Rightarrow> yaml" where
  "envVar n v = YMap [(''name'', YStr n), (''value'', YStr v)]"

definition execConfig :: "executablePaths \<Rightarrow> procEnv \<Rightarrow> yaml" where
  "execConfig p env =
     YMap [(''apiVersion'', YStr ''client.authentication.k8s.io/v1beta1''),
           (''command'', YStr (pythonCmd p)),
           (''args'', YSeq [YStr (azKubeloginPath p), YStr ''--server-id'', YStr serverId]),
           (''env'', YSeq [envVar ''PATH'' (azCliBinPath p @ pathSeparator env @ currentPath env),
                          envVar ''AZ_CLI_PATH'' (azCliCmd p)]),
           (''provideClusterInfo'', YBool False)]"

text \<open>\<^verbatim>\<open>user.user['auth-provider']\<close> as a condition.\<close>

definition truthyProp :: "obj \<Rightarrow> string \<Rightarrow> bool" where
  "truthyProp m k = (case map_of m k of None \<Rightarrow> False | Some v \<Rightarrow> truthy v)"

definition configureUser :: "executablePaths \<Rightarrow> procEnv \<Rightarrow> obj \<Rightarrow> obj" where
  "configureUser p env u =
     (let u1 = (if truthyProp u ''auth-provider'' then AList.delete ''auth-provider'' u else u);
          u2 = AList.delete ''token'' u1;
          u3 = AList.delete ''client-certificate'' u2;
          u4 = AList.delete ''client-certificate-data'' u3;
          u5 = AList.delete ''client-key'' u4;
          u6 = AList.delete ''client-key-data'' u5
      in AList.update ''exec'' (execConfig p env) u6)"

text \<open>
  One round of \<^verbatim>\<open>for (const user of kubeconfig.users) { if (user.user) { ... } }\<close>, with
  the body a parameter. A mapping is rewritten in place. An array takes the assignments
  without any change to what is serialised. A truthy scalar makes the assignment
  \<^verbatim>\<open>user.user.exec = ...\<close> raise a TypeError (the modules are strict).
\<close>

definition forUser :: "(obj \<Rightarrow> obj) \<Rightarrow> entry \<Rightarrow> error + entry" where
  "forUser body user =
     (case map_of (props user) ''user'' of
        None \<Rightarrow> Inr user
      | Some v \<Rightarrow>
          if \<not> truthy v then Inr user
          else (case v of
                  YMap m \<Rightarrow> Inr (user\<lparr>props := AList.update ''user'' (YMap (body m)) (props user)\<rparr>)
                | YSeq xs \<Rightarrow> Inr user
                | _ \<Rightarrow> Inl TypeError))"

fun forUsers :: "(obj \<Rightarrow> obj) \<Rightarrow> entry list \<Rightarrow> error + entry list" where
  "forUsers body [] = Inr []"
| "forUsers body (user # rest) =
     (case forUser body user of
        Inl e \<Rightarrow> Inl e
      | Inr user' \<Rightarrow> (case forUsers body rest of Inl e \<Rightarrow> Inl e | Inr rest' \<Rightarrow> Inr (user' # rest')))"

text \<open>
  The implementation of the main process. Only the parse is inside its
  \<^verbatim>\<open>try\<close>; \<open>stringify\<close> stands for \<^verbatim>\<open>yaml.stringify\<close> with its two options.
\<close>

definition addAzKubeloginToKubeconfig ::
  "parser \<Rightarrow> (kubeconfig option \<Rightarrow> string) \<Rightarrow> (string list \<Rightarrow> string) \<Rightarrow> procEnv \<Rightarrow>
   string \<Rightarrow> bool \<Rightarrow> string \<Rightarrow> error + string" where
  "addAzKubeloginToKubeconfig parse stringify join env kubeconfigYaml isDev resourcesPath =
     (case parse kubeconfigYaml of
        Inl _ \<Rightarrow> Inr kubeconfigYaml
      | Inr None \<Rightarrow> Inr kubeconfigYaml
      | Inr (Some kubeconfig) \<Rightarrow>
          (case users kubeconfig of
             None \<Rightarrow> Inr kubeconfigYaml
           | Some us \<Rightarrow>
               (let p = getExecutablePaths join env isDev resourcesPath in
                case forUsers (configureUser p env) us of
                  Inl e \<Rightarrow> Inl e
                | Inr us' \<Rightarrow> Inr (stringify (Some (kubeconfig\<lparr>users := Some us'\<rparr>))))))"

subsection \<open>The implementation of the plugin\<close>

definition isDevelopment :: "procEnv \<Rightarrow> bool" where
  "isDevelopment env = (nodeEnv env = Some ''development'')"

definition getResourcesPath :: "procEnv \<Rightarrow> string option" where
  "getResourcesPath env =
     (case processResourcesPath env of
        None \<Rightarrow> None
      | Some p \<Rightarrow> if p \<noteq> [] then Some p else None)"

definition resourcesNotAvailable :: error where
  "resourcesNotAvailable = Error ''Resources path not available''"

definition getAzKubeloginPath :: "procEnv \<Rightarrow> error + string" where
  "getAzKubeloginPath env =
     (if isDevelopment env then Inr (dirname env @ ''/../../../../build/az-kubelogin.py'')
      else (case getResourcesPath env of
              None \<Rightarrow> Inl resourcesNotAvailable
            | Some rp \<Rightarrow> Inr (rp @ ''/external-tools/bin/az-kubelogin.py'')))"

definition pythonName :: "procEnv \<Rightarrow> string" where
  "pythonName env = (if platform env = ''win32'' then ''python.exe'' else ''python3'')"

definition getBundledPythonPath :: "procEnv \<Rightarrow> error + string" where
  "getBundledPythonPath env =
     (if isDevelopment env then
        Inr (dirname env @ ''/../../../../headlamp/app/resources/external-tools/az-cli/'' @
             platform env @ ''/bin/'' @ pythonName env)
      else (case getResourcesPath env of
              None \<Rightarrow> Inl resourcesNotAvailable
            | Some rp \<Rightarrow>
                Inr (rp @ ''/external-tools/az-cli/'' @ platform env @ ''/bin/'' @ pythonName env)))"

definition toolBinPaths :: "procEnv \<Rightarrow> error + string \<times> string" where
  "toolBinPaths env =
     (if isDevelopment env then
        Inr (dirname env @ ''/../../../../headlamp/app/resources/external-tools/az-cli/'' @
               platform env @ ''/bin'',
             dirname env @ ''/../../../../headlamp/app/resources/external-tools/bin'')
      else (case getResourcesPath env of
              None \<Rightarrow> Inl resourcesNotAvailable
            | Some rp \<Rightarrow>
                Inr (rp @ ''/external-tools/az-cli/'' @ platform env @ ''/bin'',
                     rp @ ''/external-tools/bin'')))"

definition serverId_plugin :: string where
  "serverId_plugin = ''6dae42f8-4368-4678-94ff-3960e28e3960''"

definition execConfig_plugin :: "procEnv \<Rightarrow> string \<Rightarrow> string \<Rightarrow> string \<Rightarrow> string \<Rightarrow> yaml" where
  "execConfig_plugin env kubeloginPath pythonPath azCliBin externalToolsBin =
     YMap [(''apiVersion'', YStr ''client.authentication.k8s.io/v1beta1''),
           (''command'', YStr pythonPath),
           (''args'', YSeq [YStr kubeloginPath, YStr ''--server-id'', YStr serverId_plugin]),
           (''env'', YSeq [envVar ''PATH''
                            (externalToolsBin @ pathSeparator env @ azCliBin @
                             pathSeparator env @ currentPath env)]),
           (''provideClusterInfo'', YBool False)]"

text \<open>The loop body of the plugin: it only assigns \<^verbatim>\<open>user.user.exec\<close>.\<close>

definition configureUser_plugin :: "yaml \<Rightarrow> obj \<Rightarrow> obj" where
  "configureUser_plugin exec u = AList.update ''exec'' exec u"

text \<open>
  The body of the plugin's \<^verbatim>\<open>try\<close>, and the function with its \<^verbatim>\<open>catch\<close>, which
  returns the original text on every error.
\<close>

definition addAzKubeloginToKubeconfig_plugin_body ::
  "parser \<Rightarrow> (kubeconfig option \<Rightarrow> string) \<Rightarrow> procEnv \<Rightarrow> string \<Rightarrow> error + string" where
  "addAzKubeloginToKubeconfig_plugin_body load dump env kubeconfigYaml =
     (case load kubeconfigYaml of
        Inl e \<Rightarrow> Inl e
      | Inr None \<Rightarrow> Inr kubeconfigYaml
      | Inr (Some kubeconfig) \<Rightarrow>
          (case users kubeconfig of
             None \<Rightarrow> Inr kubeconfigYaml
           | Some us \<Rightarrow>
               (case getAzKubeloginPath env of
                  Inl e \<Rightarrow> Inl e
                | Inr kubeloginPath \<Rightarrow>
                    (case getBundledPythonPath env of
                       Inl e \<Rightarrow> Inl e
                     | Inr pythonPath \<Rightarrow>
                         (case toolBinPaths env of
                            Inl e \<Rightarrow> Inl e
                          | Inr (azCliBin, externalToolsBin) \<Rightarrow>
                              (case forUsers
                                      (configureUser_plugin
                                         (execConfig_plugin env kubeloginPath pythonPath
                                            azCliBin externalToolsBin)) us of
                                 Inl e \<Rightarrow> Inl e
                               | Inr us' \<Rightarrow> Inr (dump (Some (kubeconfig\<lparr>users := Some us'\<rparr>)))))))))"

definition addAzKubeloginToKubeconfig_plugin ::
  "parser \<Rightarrow> (kubeconfig option \<Rightarrow> string) \<Rightarrow> procEnv \<Rightarrow> string \<Rightarrow> string" where
  "addAzKubeloginToKubeconfig_plugin load dump env kubeconfigYaml =
     (case addAzKubeloginToKubeconfig_plugin_body load dump env kubeconfigYaml of
        Inl _ \<Rightarrow> kubeconfigYaml
      | Inr s \<Rightarrow> s)"

subsection \<open>The rewrite in the words of the specification\<close>

definition legacyAuthFields :: "string list" where
  "legacyAuthFields = [''auth-provider'', ''token'', ''client-certificate'',
     ''client-certificate-data'', ''client-key'', ''client-key-data'']"

definition spec_onUserObject :: "(obj \<Rightarrow> obj) \<Rightarrow> entry \<Rightarrow> entry" where
  "spec_onUserObject f u =
     (case map_of (props u) ''user'' of
        Some (YMap m) \<Rightarrow> u\<lparr>props := AList.update ''user'' (YMap (f m)) (props u)\<rparr>
      | _ \<Rightarrow> u)"

definition scalarUser :: "entry \<Rightarrow> bool" where
  "scalarUser u =
     (case map_of (props u) ''user'' of
        None \<Rightarrow> False
      | Some v \<Rightarrow> truthy v \<and> (case v of YMap m \<Rightarrow> False | YSeq xs \<Rightarrow> False | _ \<Rightarrow> True))"

text \<open>
  What a rewritten user object looks like: the descriptor under \<^verbatim>\<open>exec\<close>, every key
  that is neither a legacy field nor \<^verbatim>\<open>exec\<close> as before, and unique keys kept unique.
\<close>

definition spec_execInstalled :: "yaml \<Rightarrow> obj \<Rightarrow> obj \<Rightarrow> bool" where
  "spec_execInstalled e m m' \<longleftrightarrow>
     map_of m' ''exec'' = Some e \<and>
     (\<forall>k. k \<notin> set legacyAuthFields \<and> k \<noteq> ''exec'' \<longrightarrow> map_of m' k = map_of m k) \<and>
     (distinct (map fst m) \<longrightarrow> distinct (map fst m'))"

text \<open>
  An exec descriptor as the specification describes it: the fixed API version, no cluster
  info, the arguments (login helper, \<^verbatim>\<open>--server-id\<close>, GUID), and environment entries
  with the given names.
\<close>

definition envVarName :: "yaml \<Rightarrow> string option" where
  "envVarName v =
     (case v of
        YMap kv \<Rightarrow> (case map_of kv ''name'' of Some (YStr n) \<Rightarrow> Some n | _ \<Rightarrow> None)
      | _ \<Rightarrow> None)"

definition spec_execDescriptor :: "yaml \<Rightarrow> string \<Rightarrow> string \<Rightarrow> string list \<Rightarrow> bool" where
  "spec_execDescriptor e helper guid envNames =
     (case e of
        YMap kv \<Rightarrow>
          map_of kv ''apiVersion'' = Some (YStr ''client.authentication.k8s.io/v1beta1'') \<and>
          map_of kv ''provideClusterInfo'' = Some (YBool False) \<and>
          map_of kv ''args'' = Some (YSeq [YStr helper, YStr ''--server-id'', YStr guid]) \<and>
          (case map_of kv ''env'' of
             Some (YSeq vs) \<Rightarrow> map envVarName vs = map Some envNames
           | _ \<Rightarrow> False)
      | _ \<Rightarrow> False)"

text \<open>
  The legacy fields are gone, but for an \<^verbatim>\<open>auth-provider\<close> with a falsy value, which
  the guard \<^verbatim>\<open>if (user.user['auth-provider'])\<close> leaves where it is.
\<close>

definition spec_legacyRemoved :: "obj \<Rightarrow> obj \<Rightarrow> bool" where
  "spec_legacyRemoved m m' \<longleftrightarrow>
     (\<forall>k \<in> set legacyAuthFields.
        map_of m' k = (if k = ''auth-provider'' \<and> \<not> truthyProp m k then map_of m k else None))"

subsection \<open>Sample serialiser, paths and users\<close>

fun showYaml :: "yaml \<Rightarrow> string" where
  "showYaml YNull = ''null''"
| "showYaml (YBool b) = (if b then ''true'' else ''false'')"
| "showYaml (YNum n) = ''<number>''"
| "showYaml (YStr s) = ''<'' @ s @ ''>''"
| "showYaml (YSeq xs) = ''['' @ concat (map (\<lambda>x. showYaml x @ '','') xs) @ '']''"
| "showYaml (YMap kvs) = ''{'' @ concat (map (\<lambda>(k, v). k @ '':'' @ showYaml v @ '','') kvs) @ ''}''"

definition entryYaml :: "entry \<Rightarrow> yaml" where
  "entryYaml e = YMap ((''name'', YStr (name e)) # props e)"

definition docYaml :: "kubeconfig \<Rightarrow> yaml" where
  "docYaml k = YMap (passthrough k @
     (case clusters k of None \<Rightarrow> [] | Some xs \<Rightarrow> [(''clusters'', YSeq (map entryYaml xs))]) @
     (case contexts k of None \<Rightarrow> [] | Some xs \<Rightarrow> [(''contexts'', YSeq (map entryYaml xs))]) @
     (case users k of None \<Rightarrow> [] | Some xs \<Rightarrow> [(''users'', YSeq (map entryYaml xs))]) @
     (case current_context k of None \<Rightarrow> [] | Some c \<Rightarrow> [(''current-context'', YStr c)]))"

definition sampleStringify :: "kubeconfig option \<Rightarrow> string" where
  "sampleStringify d = (case d of None \<Rightarrow> ''null'' | Some k \<Rightarrow> showYaml (docYaml k))"

fun sampleJoin :: "string list \<Rightarrow> string" where
  "sampleJoin [] = ''.''"
| "sampleJoin [p] = p"
| "sampleJoin (p # ps) = p @ ''/'' @ sampleJoin ps"

definition sampleEnv :: procEnv where
  "sampleEnv = \<lparr>platform = ''linux'', envPATH = Some ''/usr/bin'', nodeEnv = Some ''production'',
     dirname = ''/app'', processResourcesPath = Some ''/res''\<rparr>"

definition userAzure :: entry where
  "userAzure = \<lparr>name = ''clusterUser_rg_aks'', props = [(''user'',
     YMap [(''auth-provider'', YMap [(''name'', YStr ''azure'')]), (''token'', YStr ''t'')])]\<rparr>"

definition userBare :: entry where
  "userBare = \<lparr>name = ''bare'', props = []\<rparr>"

definition userNullProvider :: entry where
  "userNullProvider = \<lparr>name = ''np'', props = [(''user'', YMap [(''auth-provider'', YNull)])]\<rparr>"

definition docAzure :: kubeconfig where
  "docAzure = \<lparr>clusters = None, contexts = None, users = Some [userAzure, userBare],
     current_context = None, passthrough = []\<rparr>"

definition docNullProvider :: kubeconfig where
  "docNullProvider = \<lparr>clusters = None, contexts = None, users = Some [userNullProvider],
     current_context = None, passthrough = []\<rparr>"

definition sampleLoad :: parser where
  "sampleLoad s =
     (if s = ''azure'' then Inr (Some docAzure)
      else if s = ''nullprovider'' then Inr (Some docNullProvider)
      else Inl YAMLParseError)"

definition sampleExec :: yaml where
  "sampleExec = YMap [(''apiVersion'', YStr ''client.authentication.k8s.io/v1beta1''),
     (''command'', YStr ''/res/external-tools/az-cli/linux/bin/python3''),
     (''args'', YSeq [YStr ''/res/external-tools/bin/az-kubelogin.py'', YStr ''--server-id'',
        YStr ''6dae42f8-4368-4678-94ff-3960e28e3630'']),
     (''env'', YSeq [YMap [(''name'', YStr ''PATH''),
                          (''value'', YStr ''/res/external-tools/az-cli/linux/bin:/usr/bin'')],
                    YMap [(''name'', YStr ''AZ_CLI_PATH''),
                          (''value'', YStr ''/res/external-tools/az-cli/linux/bin/az'')]]),
     (''provideClusterInfo'', YBool False)]"

definition sampleExec_plugin :: yaml where
  "sampleExec_plugin = YMap [(''apiVersion'', YStr ''client.authentication.k8s.io/v1beta1''),
     (''command'', YStr ''/res/external-tools/az-cli/linux/bin/python3''),
     (''args'', YSeq [YStr ''/res/external-tools/bin/az-kubelogin.py'', YStr ''--server-id'',
        YStr ''6dae42f8-4368-4678-94ff-3960e28e3960'']),
     (''env'', YSeq [YMap [(''name'', YStr ''PATH''),
        (''value'', YStr ''/res/external-tools/bin:/res/external-tools/az-cli/linux/bin:/usr/bin'')]]),
     (''provideClusterInfo'', YBool False)]"

section \<open>Properties of the credential rewriter\<close>

lemma forUser_spec: "\<not> scalarUser u \<Longrightarrow> forUser body u = Inr (spec_onUserObject body u)"
proof (cases "map_of (props u) ''user''")
  case None
  then show ?thesis by (simp add: forUser_def spec_onUserObject_def)
next
  case (Some v)
  assume ok: "\<not> scalarUser u"
  with Some show ?thesis
    by (cases v) (simp_all add: forUser_def spec_onUserObject_def scalarUser_def)
qed


lemma forUsers_spec:
  "\<forall>u\<in>set us. \<not> scalarUser u \<Longrightarrow> forUsers body us = Inr (map (spec_onUserObject body) us)"
  by (induction us) (simp_all add: forUser_spec)


lemma map_of_delete_other: "k \<noteq> j \<Longrightarrow> map_of (AList.delete j m) k = map_of m k"
  by (simp add: delete_conv')


lemma map_of_delete_same: "map_of (AList.delete k m) k = None"
  by (simp add: delete_conv')


lemma map_of_delete_none: "map_of m k = None \<Longrightarrow> map_of (AList.delete j m) k = None"
  by (simp add: delete_conv')


lemma map_of_update_other: "k \<noteq> j \<Longrightarrow> map_of (AList.update j v m) k = map_of m k"
  by (simp add: update_conv')


lemma map_of_update_same: "map_of (AList.update k v m) k = Some v"
  by (simp add: update_conv')


lemma configureUser_exec: "map_of (configureUser p env m) ''exec'' = Some (execConfig p env)"
  unfolding configureUser_def Let_def by (rule map_of_update_same)


lemma legacy_not_exec: "k \<in> set legacyAuthFields \<Longrightarrow> k \<noteq> ''exec''"
  unfolding legacyAuthFields_def by auto


lemma configureUser_unconditional:
  assumes "k = ''token'' \<or> k = ''client-certificate'' \<or> k = ''client-certificate-data'' \<or>
           k = ''client-key'' \<or> k = ''client-key-data''"
  shows "map_of (configureUser p env m) k = None"
proof -
  have ne: "k \<noteq> ''exec''" using assms by auto
  have "map_of (AList.delete ''client-key-data'' (AList.delete ''client-key''
          (AList.delete ''client-certificate-data'' (AList.delete ''client-certificate''
            (AList.delete ''token'' u))))) k = None" for u
    using assms
    by (elim disjE) (simp_all only: map_of_delete_same map_of_delete_none)
  then show ?thesis
    unfolding configureUser_def Let_def by (simp only: map_of_update_other[OF ne])
qed


lemma configureUser_truthy_auth_provider:
  assumes "truthyProp m ''auth-provider''"
  shows "map_of (configureUser p env m) ''auth-provider'' = None"
proof -
  have ne: "''auth-provider'' \<noteq> ''exec''" by simp
  show ?thesis
    unfolding configureUser_def Let_def
    using assms by (simp only: map_of_update_other[OF ne] map_of_delete_same map_of_delete_none if_True)
qed


lemma configureUser_legacy:
  assumes "k \<in> set legacyAuthFields" and "k \<noteq> ''auth-provider'' \<or> truthyProp m ''auth-provider''"
  shows "map_of (configureUser p env m) k = None"
proof (cases "k = ''auth-provider''")
  case True
  with assms(2) have "truthyProp m ''auth-provider''" by blast
  then show ?thesis unfolding True by (rule configureUser_truthy_auth_provider)
next
  case False
  with assms(1) have "k = ''token'' \<or> k = ''client-certificate'' \<or> k = ''client-certificate-data'' \<or>
           k = ''client-key'' \<or> k = ''client-key-data''"
    unfolding legacyAuthFields_def by auto
  then show ?thesis by (rule configureUser_unconditional)
qed


lemma configureUser_other:
  assumes "k \<notin> set legacyAuthFields" and "k \<noteq> ''exec''"
  shows "map_of (configureUser p env m) k = map_of m k"
proof -
  from assms(1) have ne: "k \<noteq> ''auth-provider''" "k \<noteq> ''token''" "k \<noteq> ''client-certificate''"
      "k \<noteq> ''client-certificate-data''" "k \<noteq> ''client-key''" "k \<noteq> ''client-key-data''"
    unfolding legacyAuthFields_def by auto
  show ?thesis
    unfolding configureUser_def Let_def
    using ne assms(2)
    by (simp only: map_of_delete_other map_of_update_other if_distrib[of "\<lambda>al. map_of al k"]
          if_cancel not_False_eq_True)
qed


lemma configureUser_falsy_auth_provider:
  assumes "\<not> truthyProp m ''auth-provider''"
  shows "map_of (configureUser p env m) ''auth-provider'' = map_of m ''auth-provider''"
proof -
  have ne: "''auth-provider'' \<noteq> ''exec''" "''auth-provider'' \<noteq> ''token''"
      "''auth-provider'' \<noteq> ''client-certificate''" "''auth-provider'' \<noteq> ''client-certificate-data''"
      "''auth-provider'' \<noteq> ''client-key''" "''auth-provider'' \<noteq> ''client-key-data''"
    by simp_all
  show ?thesis
    unfolding configureUser_def Let_def
    using assms ne by (simp only: map_of_delete_other map_of_update_other if_False simp_thms)
qed


lemma configureUser_distinct:
  assumes "distinct (map fst m)"
  shows "distinct (map fst (configureUser p env m))"
proof -
  have "distinct (map fst (if truthyProp m ''auth-provider''
                           then AList.delete ''auth-provider'' m else m))"
    using assms by (simp add: distinct_delete)
  then show ?thesis
    unfolding configureUser_def Let_def by (intro distinct_update distinct_delete)
qed

lemma configureUser_plugin_exec: "map_of (configureUser_plugin e m) ''exec'' = Some e"
  by (simp add: configureUser_plugin_def update_conv')

lemma configureUser_plugin_other:
  "k \<noteq> ''exec'' \<Longrightarrow> map_of (configureUser_plugin e m) k = map_of m k"
  by (simp add: configureUser_plugin_def update_conv')

lemma configureUser_plugin_distinct:
  "distinct (map fst m) \<Longrightarrow> distinct (map fst (configureUser_plugin e m))"
  by (simp add: configureUser_plugin_def distinct_update)

lemma sample_paths:
  "getExecutablePaths sampleJoin sampleEnv False ''/res'' =
     \<lparr>pythonCmd = ''/res/external-tools/az-cli/linux/bin/python3'',
      azKubeloginPath = ''/res/external-tools/bin/az-kubelogin.py'',
      azCliBinPath = ''/res/external-tools/az-cli/linux/bin'',
      azCliCmd = ''/res/external-tools/az-cli/linux/bin/az''\<rparr>"
  by (simp add: getExecutablePaths_def sampleEnv_def Let_def)

lemma sample_execConfig:
  "execConfig (getExecutablePaths sampleJoin sampleEnv False ''/res'') sampleEnv = sampleExec"
  unfolding sample_paths
  by (simp add: execConfig_def sampleExec_def envVar_def pathSeparator_def currentPath_def
        serverId_def sampleEnv_def)

lemma sample_plugin_paths:
  "getAzKubeloginPath sampleEnv = Inr ''/res/external-tools/bin/az-kubelogin.py''"
  "getBundledPythonPath sampleEnv = Inr ''/res/external-tools/az-cli/linux/bin/python3''"
  "toolBinPaths sampleEnv = Inr (''/res/external-tools/az-cli/linux/bin'', ''/res/external-tools/bin'')"
  by (simp_all add: getAzKubeloginPath_def getBundledPythonPath_def toolBinPaths_def
        isDevelopment_def getResourcesPath_def sampleEnv_def pythonName_def)

lemma sample_execConfig_plugin:
  "execConfig_plugin sampleEnv ''/res/external-tools/bin/az-kubelogin.py''
     ''/res/external-tools/az-cli/linux/bin/python3'' ''/res/external-tools/az-cli/linux/bin''
     ''/res/external-tools/bin'' = sampleExec_plugin"
  by (simp add: execConfig_plugin_def sampleExec_plugin_def envVar_def pathSeparator_def
        currentPath_def serverId_plugin_def sampleEnv_def)

text \<open>
  C7: a text that does not parse comes back as it is from both implementations, and the
  implementation of the main process raises nothing.
\<close>

theorem rewrite_unparseable_unchanged:
  assumes "parse kubeconfigYaml = Inl err"
  shows "addAzKubeloginToKubeconfig parse stringify join env kubeconfigYaml isDev resourcesPath
           = Inr kubeconfigYaml \<and>
         addAzKubeloginToKubeconfig_plugin parse dump env' kubeconfigYaml = kubeconfigYaml"
  using assms
  by (simp add: addAzKubeloginToKubeconfig_def addAzKubeloginToKubeconfig_plugin_def
        addAzKubeloginToKubeconfig_plugin_body_def)

theorem rewrite_unparseable_unchanged_witness:
  "sampleLoad ''::: not yaml'' = Inl YAMLParseError \<and>
   addAzKubeloginToKubeconfig sampleLoad sampleStringify sampleJoin sampleEnv ''::: not yaml''
     False ''/res'' = Inr ''::: not yaml'' \<and>
   addAzKubeloginToKubeconfig_plugin sampleLoad sampleStringify sampleEnv ''::: not yaml'' =
     ''::: not yaml''"
proof -
  have bad: "sampleLoad ''::: not yaml'' = Inl YAMLParseError"
    by (simp add: sampleLoad_def)
  from bad rewrite_unparseable_unchanged[where parse = sampleLoad
      and kubeconfigYaml = "''::: not yaml''" and err = YAMLParseError
      and stringify = sampleStringify and dump = sampleStringify and join = sampleJoin
      and env = sampleEnv and env' = sampleEnv and isDev = False and resourcesPath = "''/res''"]
  show ?thesis by simp
qed

text \<open>
  C2, as the code has it. For a kubeconfig that parses, has a \<^verbatim>\<open>users\<close> array and no user
  whose \<^verbatim>\<open>user\<close> value is a truthy scalar, both implementations return the serialised
  document in which exactly the user records with a \<^verbatim>\<open>user\<close> mapping are rewritten and
  the others are as before. The main process removes \<^verbatim>\<open>token\<close>, the certificate and
  key fields and a truthy \<^verbatim>\<open>auth-provider\<close>, and installs under \<^verbatim>\<open>exec\<close> the
  descriptor \<open>execConfig\<close> (API version, interpreter, login helper, \<^verbatim>\<open>--server-id\<close>, the
  GUID, \<^verbatim>\<open>PATH\<close> and \<^verbatim>\<open>AZ_CLI_PATH\<close>, \<^verbatim>\<open>provideClusterInfo: false\<close>). The plugin
  installs \<open>execConfig_plugin\<close> (\<^verbatim>\<open>PATH\<close> only) where the paths of the bundled tools can
  be found. Nothing is said of the legacy fields under the plugin.
\<close>

theorem credential_rewrite:
  assumes "parse kubeconfigYaml = Inr (Some kubeconfig)"
      and "users kubeconfig = Some us"
      and "\<forall>u\<in>set us. \<not> scalarUser u"
      and "getAzKubeloginPath env' = Inr kubeloginPath"
      and "getBundledPythonPath env' = Inr pythonPath"
      and "toolBinPaths env' = Inr (azCliBin, externalToolsBin)"
  shows "addAzKubeloginToKubeconfig parse stringify join env kubeconfigYaml isDev resourcesPath =
           Inr (stringify (Some (kubeconfig\<lparr>users := Some (map (spec_onUserObject
             (configureUser (getExecutablePaths join env isDev resourcesPath) env)) us)\<rparr>))) \<and>
         (\<forall>m. spec_legacyRemoved m (configureUser (getExecutablePaths join env isDev resourcesPath) env m) \<and>
              spec_execInstalled (execConfig (getExecutablePaths join env isDev resourcesPath) env) m
                (configureUser (getExecutablePaths join env isDev resourcesPath) env m)) \<and>
         addAzKubeloginToKubeconfig_plugin parse dump env' kubeconfigYaml =
           dump (Some (kubeconfig\<lparr>users := Some (map (spec_onUserObject
             (configureUser_plugin
                (execConfig_plugin env' kubeloginPath pythonPath azCliBin externalToolsBin))) us)\<rparr>)) \<and>
         (\<forall>m. spec_execInstalled
                (execConfig_plugin env' kubeloginPath pythonPath azCliBin externalToolsBin) m
                (configureUser_plugin
                   (execConfig_plugin env' kubeloginPath pythonPath azCliBin externalToolsBin) m)) \<and>
         spec_execDescriptor (execConfig (getExecutablePaths join env isDev resourcesPath) env)
           (azKubeloginPath (getExecutablePaths join env isDev resourcesPath))
           ''6dae42f8-4368-4678-94ff-3960e28e3630'' [''PATH'', ''AZ_CLI_PATH''] \<and>
         spec_execDescriptor
           (execConfig_plugin env' kubeloginPath pythonPath azCliBin externalToolsBin)
           kubeloginPath ''6dae42f8-4368-4678-94ff-3960e28e3960'' [''PATH'']"
proof (intro conjI allI)
  show "addAzKubeloginToKubeconfig parse stringify join env kubeconfigYaml isDev resourcesPath =
           Inr (stringify (Some (kubeconfig\<lparr>users := Some (map (spec_onUserObject
             (configureUser (getExecutablePaths join env isDev resourcesPath) env)) us)\<rparr>)))"
    using assms(1-3) by (simp add: addAzKubeloginToKubeconfig_def forUsers_spec)
next
  fix m
  show "spec_legacyRemoved m (configureUser (getExecutablePaths join env isDev resourcesPath) env m)"
    unfolding spec_legacyRemoved_def
    by (auto simp: configureUser_legacy configureUser_falsy_auth_provider)
next
  fix m
  show "spec_execInstalled (execConfig (getExecutablePaths join env isDev resourcesPath) env) m
          (configureUser (getExecutablePaths join env isDev resourcesPath) env m)"
    unfolding spec_execInstalled_def
    by (simp add: configureUser_exec configureUser_other configureUser_distinct)
next
  show "addAzKubeloginToKubeconfig_plugin parse dump env' kubeconfigYaml =
           dump (Some (kubeconfig\<lparr>users := Some (map (spec_onUserObject
             (configureUser_plugin
                (execConfig_plugin env' kubeloginPath pythonPath azCliBin externalToolsBin))) us)\<rparr>))"
    using assms
    by (simp add: addAzKubeloginToKubeconfig_plugin_def addAzKubeloginToKubeconfig_plugin_body_def
          forUsers_spec)
next
  fix m
  show "spec_execInstalled
          (execConfig_plugin env' kubeloginPath pythonPath azCliBin externalToolsBin) m
          (configureUser_plugin
             (execConfig_plugin env' kubeloginPath pythonPath azCliBin externalToolsBin) m)"
    unfolding spec_execInstalled_def
    by (simp add: configureUser_plugin_exec configureUser_plugin_other configureUser_plugin_distinct
          legacyAuthFields_def)
next
  show "spec_execDescriptor (execConfig (getExecutablePaths join env isDev resourcesPath) env)
          (azKubeloginPath (getExecutablePaths join env isDev resourcesPath))
          ''6dae42f8-4368-4678-94ff-3960e28e3630'' [''PATH'', ''AZ_CLI_PATH'']"
    by (simp add: spec_execDescriptor_def execConfig_def envVar_def envVarName_def serverId_def)
next
  show "spec_execDescriptor
          (execConfig_plugin env' kubeloginPath pythonPath azCliBin externalToolsBin)
          kubeloginPath ''6dae42f8-4368-4678-94ff-3960e28e3960'' [''PATH'']"
    by (simp add: spec_execDescriptor_def execConfig_plugin_def envVar_def envVarName_def
          serverId_plugin_def)
qed


theorem credential_rewrite_witness:
  "addAzKubeloginToKubeconfig sampleLoad sampleStringify sampleJoin sampleEnv ''azure'' False ''/res'' =
     Inr (sampleStringify (Some (docAzure\<lparr>users := Some
       [\<lparr>name = ''clusterUser_rg_aks'', props = [(''user'', YMap [(''exec'', sampleExec)])]\<rparr>,
        userBare]\<rparr>))) \<and>
   addAzKubeloginToKubeconfig_plugin sampleLoad sampleStringify sampleEnv ''azure'' =
     sampleStringify (Some (docAzure\<lparr>users := Some
       [\<lparr>name = ''clusterUser_rg_aks'', props = [(''user'',
          YMap [(''auth-provider'', YMap [(''name'', YStr ''azure'')]), (''token'', YStr ''t''),
                (''exec'', sampleExec_plugin)])]\<rparr>,
        userBare]\<rparr>))"
proof -
  have p: "sampleLoad ''azure'' = Inr (Some docAzure)"
    by (simp add: sampleLoad_def)
  have u: "users docAzure = Some [userAzure, userBare]"
    by (simp add: docAzure_def)
  have ok: "\<forall>u\<in>set [userAzure, userBare]. \<not> scalarUser u"
    by (simp add: scalarUser_def userAzure_def userBare_def)
  have main: "map (spec_onUserObject (configureUser (getExecutablePaths sampleJoin sampleEnv False ''/res'') sampleEnv))
      [userAzure, userBare] =
      [\<lparr>name = ''clusterUser_rg_aks'', props = [(''user'', YMap [(''exec'', sampleExec)])]\<rparr>, userBare]"
    by (simp add: spec_onUserObject_def userAzure_def userBare_def configureUser_def Let_def
          truthyProp_def sample_execConfig)
  have plug: "map (spec_onUserObject (configureUser_plugin sampleExec_plugin)) [userAzure, userBare] =
      [\<lparr>name = ''clusterUser_rg_aks'', props = [(''user'',
          YMap [(''auth-provider'', YMap [(''name'', YStr ''azure'')]), (''token'', YStr ''t''),
                (''exec'', sampleExec_plugin)])]\<rparr>, userBare]"
    by (simp add: spec_onUserObject_def userAzure_def userBare_def configureUser_plugin_def)
  from credential_rewrite[where parse = sampleLoad and kubeconfigYaml = "''azure''"
      and stringify = sampleStringify and dump = sampleStringify and join = sampleJoin
      and env = sampleEnv and isDev = False and resourcesPath = "''/res''",
      OF p u ok sample_plugin_paths]
  show ?thesis
    by (simp only: main plug sample_execConfig_plugin)
qed

text \<open>
  C2 as stated fails. In the main process an \<^verbatim>\<open>auth-provider\<close> whose value is null is
  not deleted: the deletion stands under \<^verbatim>\<open>if (user.user['auth-provider'])\<close>. The plugin
  deletes no legacy field at all: \<^verbatim>\<open>auth-provider\<close> and \<^verbatim>\<open>token\<close> stay beside the new
  \<^verbatim>\<open>exec\<close>.
\<close>

theorem credential_rewrite_counterexample:
  "addAzKubeloginToKubeconfig sampleLoad sampleStringify sampleJoin sampleEnv ''nullprovider'' False ''/res'' =
     Inr (sampleStringify (Some (docNullProvider\<lparr>users := Some
       [\<lparr>name = ''np'', props = [(''user'',
          YMap [(''auth-provider'', YNull), (''exec'', sampleExec)])]\<rparr>]\<rparr>))) \<and>
   addAzKubeloginToKubeconfig_plugin sampleLoad sampleStringify sampleEnv ''azure'' =
     sampleStringify (Some (docAzure\<lparr>users := Some
       [\<lparr>name = ''clusterUser_rg_aks'', props = [(''user'',
          YMap [(''auth-provider'', YMap [(''name'', YStr ''azure'')]), (''token'', YStr ''t''),
                (''exec'', sampleExec_plugin)])]\<rparr>,
        userBare]\<rparr>))"
proof -
  have a: "forUsers (configureUser (getExecutablePaths sampleJoin sampleEnv False ''/res'') sampleEnv)
      [userNullProvider] = Inr [\<lparr>name = ''np'', props = [(''user'',
          YMap [(''auth-provider'', YNull), (''exec'', sampleExec)])]\<rparr>]"
    by (simp add: forUser_def userNullProvider_def configureUser_def Let_def
          truthyProp_def sample_execConfig)
  have b: "forUsers (configureUser_plugin sampleExec_plugin) [userAzure, userBare] =
      Inr [\<lparr>name = ''clusterUser_rg_aks'', props = [(''user'',
          YMap [(''auth-provider'', YMap [(''name'', YStr ''azure'')]), (''token'', YStr ''t''),
                (''exec'', sampleExec_plugin)])]\<rparr>, userBare]"
    by (simp add: forUser_def userAzure_def userBare_def configureUser_plugin_def)
  show ?thesis
    by (simp add: addAzKubeloginToKubeconfig_def addAzKubeloginToKubeconfig_plugin_def
          addAzKubeloginToKubeconfig_plugin_body_def sampleLoad_def docNullProvider_def
          docAzure_def a b sample_plugin_paths sample_execConfig_plugin Let_def
          del: forUsers.simps)
qed

section \<open>Cluster registration\<close>

text \<open>
  The message of an error. The texts the YAML library and the engine give their own errors
  are not modelled: a tag stands for them.
\<close>

fun errorMessage :: "error \<Rightarrow> string" where
  "errorMessage (Error m) = m"
| "errorMessage TypeError = ''TypeError''"
| "errorMessage YAMLParseError = ''YAMLParseError''"

text \<open>\<^verbatim>\<open>s || d\<close> on strings.\<close>

definition orDefault :: "string \<Rightarrow> string \<Rightarrow> string" where
  "orDefault s d = (if s \<noteq> [] then s else d)"

text \<open>\<^verbatim>\<open>String.prototype.includes\<close>\<close>

fun startsWith :: "string \<Rightarrow> string \<Rightarrow> bool" where
  "startsWith s [] = True"
| "startsWith [] (p # ps) = False"
| "startsWith (c # cs) (p # ps) = (c = p \<and> startsWith cs ps)"

fun includesStr :: "string \<Rightarrow> string \<Rightarrow> bool" where
  "includesStr [] sub = (sub = [])"
| "includesStr (c # cs) sub = (startsWith (c # cs) sub \<or> includesStr cs sub)"

record RegisterAKSClusterResult =
  success :: bool
  message :: string

record cmdResult =
  code :: int
  stdout :: string
  stderr :: string

text \<open>
  The file system: the contents of the files and the directories that exist. Which
  operations the system refuses (permissions, a full disk) is a parameter.
\<close>

record world =
  files :: "string \<Rightarrow> string option"
  dirs :: "string \<Rightarrow> bool"

record faults =
  readFails :: "string \<Rightarrow> bool"
  writeFails :: "string \<Rightarrow> bool"
  unlinkFails :: "string \<Rightarrow> bool"
  mkdirFails :: "string \<Rightarrow> bool"

text \<open>\<^verbatim>\<open>os.tmpdir()\<close>, \<^verbatim>\<open>os.homedir()\<close> and the digits of \<^verbatim>\<open>Date.now()\<close>.\<close>

record osEnv =
  tmpdir :: string
  homedir :: string
  dateNow :: string

text \<open>The libraries: \<^verbatim>\<open>yaml\<close> and \<^verbatim>\<open>path\<close>.\<close>

record libs =
  yamlParse :: parser
  yamlStringify :: "kubeconfig option \<Rightarrow> string"
  pathJoin :: "string list \<Rightarrow> string"
  pathDirname :: "string \<Rightarrow> string"

text \<open>
  \<^verbatim>\<open>executeCommandWithShellEnv('az', args)\<close>: the external command may change the file
  system, and it returns an exit code or throws.
\<close>

type_synonym command = "string list \<Rightarrow> world \<Rightarrow> (error + cmdResult) \<times> world"

definition existsSync :: "string \<Rightarrow> world \<Rightarrow> bool" where
  "existsSync p w \<longleftrightarrow> files w p \<noteq> None \<or> dirs w p"

definition readFileSync :: "faults \<Rightarrow> string \<Rightarrow> world \<Rightarrow> error + string" where
  "readFileSync flt p w =
     (if readFails flt p then Inl (Error ''EACCES'')
      else case files w p of None \<Rightarrow> Inl (Error ''ENOENT'') | Some c \<Rightarrow> Inr c)"

definition writeFileSync :: "faults \<Rightarrow> string \<Rightarrow> string \<Rightarrow> world \<Rightarrow> (error + unit) \<times> world" where
  "writeFileSync flt p c w =
     (if writeFails flt p then (Inl (Error ''EACCES''), w)
      else (Inr (), w\<lparr>files := (files w)(p \<mapsto> c)\<rparr>))"

definition unlinkSync :: "faults \<Rightarrow> string \<Rightarrow> world \<Rightarrow> (error + unit) \<times> world" where
  "unlinkSync flt p w =
     (if unlinkFails flt p then (Inl (Error ''EPERM''), w)
      else if files w p = None then (Inl (Error ''ENOENT''), w)
      else (Inr (), w\<lparr>files := (files w)(p := None)\<rparr>))"

definition mkdirSync :: "faults \<Rightarrow> string \<Rightarrow> world \<Rightarrow> (error + unit) \<times> world" where
  "mkdirSync flt p w =
     (if mkdirFails flt p then (Inl (Error ''EACCES''), w)
      else (Inr (), w\<lparr>dirs := (dirs w)(p := True)\<rparr>))"

definition tempPath :: "libs \<Rightarrow> osEnv \<Rightarrow> string" where
  "tempPath d os = pathJoin d [tmpdir os, ''kubeconfig-'' @ dateNow os @ ''.yaml'']"

definition credentialArgs ::
  "string \<Rightarrow> string \<Rightarrow> string \<Rightarrow> string option \<Rightarrow> string \<Rightarrow> string list" where
  "credentialArgs subscriptionId resourceGroup clusterName managedNamespace tempKubeconfigPath =
     [''aks''] @
     (case managedNamespace of
        Some ns \<Rightarrow>
          if ns \<noteq> [] then
            [''namespace'', ''get-credentials'', ''--cluster-name'', clusterName,
             ''--resource-group'', resourceGroup, ''--name'', ns,
             ''--subscription'', subscriptionId]
          else
            [''get-credentials'', ''--subscription'', subscriptionId,
             ''--resource-group'', resourceGroup, ''--name'', clusterName,
             ''--format'', ''azure'']
      | None \<Rightarrow>
          [''get-credentials'', ''--subscription'', subscriptionId,
           ''--resource-group'', resourceGroup, ''--name'', clusterName,
           ''--format'', ''azure'']) @
     [''--file'', tempKubeconfigPath]"

definition kubeconfigFile :: "libs \<Rightarrow> osEnv \<Rightarrow> string" where
  "kubeconfigFile d os = pathJoin d [homedir os, ''.kube'', ''config'']"

text \<open>
  Steps 2 and 3 of \<^verbatim>\<open>registerAKSCluster\<close>: read the temporary file, rewrite it when it
  names \<^verbatim>\<open>kubelogin\<close>, merge it into the kubeconfig of the user, write that, delete the
  temporary file. Every throw is an \<open>Inl\<close> with the file system as it was left.
\<close>

definition mergeIntoKubeconfig ::
  "libs \<Rightarrow> procEnv \<Rightarrow> osEnv \<Rightarrow> faults \<Rightarrow> bool \<Rightarrow> string \<Rightarrow> string \<Rightarrow> world \<Rightarrow>
   (error + unit) \<times> world" where
  "mergeIntoKubeconfig d env os flt isDev resourcesPath tempKubeconfigPath w =
     (case readFileSync flt tempKubeconfigPath w of
        Inl e \<Rightarrow> (Inl e, w)
      | Inr tempKubeconfig \<Rightarrow>
     (case (if includesStr tempKubeconfig ''command: kubelogin''
            then addAzKubeloginToKubeconfig (yamlParse d) (yamlStringify d) (pathJoin d) env
                   tempKubeconfig isDev resourcesPath
            else Inr tempKubeconfig) of
        Inl e \<Rightarrow> (Inl e, w)
      | Inr modifiedKubeconfig \<Rightarrow>
     (let kubeconfigPath = kubeconfigFile d os;
          kubeconfigDir = pathDirname d kubeconfigPath
      in case (if \<not> existsSync kubeconfigDir w then mkdirSync flt kubeconfigDir w
               else (Inr (), w)) of
        (Inl e, w1) \<Rightarrow> (Inl e, w1)
      | (Inr _, w1) \<Rightarrow>
     (case (if existsSync kubeconfigPath w1 then readFileSync flt kubeconfigPath w1
            else Inr []) of
        Inl e \<Rightarrow> (Inl e, w1)
      | Inr existingKubeconfig \<Rightarrow>
     (case mergeKubeconfig (yamlParse d) existingKubeconfig modifiedKubeconfig of
        Inl e \<Rightarrow> (Inl e, w1)
      | Inr mergedConfig \<Rightarrow>
     (case writeFileSync flt kubeconfigPath (yamlStringify d mergedConfig) w1 of
        (Inl e, w2) \<Rightarrow> (Inl e, w2)
      | (Inr _, w2) \<Rightarrow> unlinkSync flt tempKubeconfigPath w2))))))"

text \<open>
  \<^verbatim>\<open>registerAKSCluster\<close>. The three early \<^verbatim>\<open>return\<close>s after the command leave the
  function from inside the outer \<^verbatim>\<open>try\<close>; only a throw of the later steps reaches the
  \<^verbatim>\<open>catch\<close> with its cleanup, where an error of \<^verbatim>\<open>unlinkSync\<close> is ignored.
\<close>

definition registerAKSCluster ::
  "libs \<Rightarrow> command \<Rightarrow> procEnv \<Rightarrow> osEnv \<Rightarrow> faults \<Rightarrow>
   string \<Rightarrow> string \<Rightarrow> string \<Rightarrow> bool \<Rightarrow> bool \<Rightarrow> string \<Rightarrow> string option \<Rightarrow>
   world \<Rightarrow> RegisterAKSClusterResult \<times> world" where
  "registerAKSCluster d az env os flt subscriptionId resourceGroup clusterName isAzureRBACEnabled
       isDev resourcesPath managedNamespace w =
     (let tempKubeconfigPath = tempPath d os;
          args = credentialArgs subscriptionId resourceGroup clusterName managedNamespace
                   tempKubeconfigPath
      in case az args w of
        (Inl e, w1) \<Rightarrow>
          (\<lparr>success = False,
            message = ''Failed to get credentials: '' @ orDefault (errorMessage e) ''Unknown error''\<rparr>,
           w1)
      | (Inr result, w1) \<Rightarrow>
          if code result \<noteq> 0 then
            (\<lparr>success = False,
              message = ''Failed to get credentials: '' @ orDefault (stderr result) ''Unknown error''\<rparr>,
             w1)
          else if \<not> existsSync tempKubeconfigPath w1 then
            (\<lparr>success = False, message = ''Failed to create temporary kubeconfig file''\<rparr>, w1)
          else
            (case mergeIntoKubeconfig d env os flt isDev resourcesPath tempKubeconfigPath w1 of
               (Inr _, w2) \<Rightarrow>
                 (\<lparr>success = True,
                   message = ''Cluster '' @ [CHR 0x27] @ clusterName @ [CHR 0x27] @
                     '' registered successfully. Kubeconfig written to '' @ kubeconfigFile d os\<rparr>,
                  w2)
             | (Inl e, w2) \<Rightarrow>
                 (\<lparr>success = False,
                   message = orDefault (errorMessage e) ''Unknown error occurred''\<rparr>,
                  if existsSync tempKubeconfigPath w2
                  then snd (unlinkSync flt tempKubeconfigPath w2) else w2)))"

subsection \<open>A command that creates the file and then fails\<close>

definition sampleDirname :: "string \<Rightarrow> string" where
  "sampleDirname p = rev (tl (dropWhile (\<lambda>c. c \<noteq> CHR ''/'') (rev p)))"

definition sampleLibs :: libs where
  "sampleLibs = \<lparr>yamlParse = sampleLoad, yamlStringify = sampleStringify,
     pathJoin = sampleJoin, pathDirname = sampleDirname\<rparr>"

definition sampleOs :: osEnv where
  "sampleOs = \<lparr>tmpdir = ''/tmp'', homedir = ''/home/u'', dateNow = ''1700000000000''\<rparr>"

definition noFaults :: faults where
  "noFaults = \<lparr>readFails = (\<lambda>p. False), writeFails = (\<lambda>p. False),
     unlinkFails = (\<lambda>p. False), mkdirFails = (\<lambda>p. False)\<rparr>"

definition emptyWorld :: world where
  "emptyWorld = \<lparr>files = (\<lambda>p. None), dirs = (\<lambda>p. False)\<rparr>"

text \<open>
  A command that creates the file named after \<^verbatim>\<open>--file\<close> and exits with code 1. The
  command is outside the repository: what it leaves on disk when it fails is an assumption.
\<close>

definition azCreatesFileThenFails :: command where
  "azCreatesFileThenFails args w =
     (Inr \<lparr>code = 1, stdout = [], stderr = ''ERROR: could not merge credentials''\<rparr>,
      w\<lparr>files := (files w)(last args \<mapsto> [])\<rparr>)"

text \<open>The command writes the kubeconfig of the sample and exits with code 0.\<close>

definition azSucceeds :: command where
  "azSucceeds args w =
     (Inr \<lparr>code = 0, stdout = [], stderr = []\<rparr>, w\<lparr>files := (files w)(last args \<mapsto> ''azure'')\<rparr>)"

section \<open>Properties of the registration\<close>

lemma unlinkSync_removes:
  "\<not> unlinkFails flt p \<Longrightarrow> files (snd (unlinkSync flt p w)) p = None"
  by (simp add: unlinkSync_def)

lemma mergeIntoKubeconfig_ok_removes:
  assumes "mergeIntoKubeconfig d env os flt isDev rp t w = (Inr u, w')"
  shows "files w' t = None"
  using assms
  by (auto simp: mergeIntoKubeconfig_def Let_def unlinkSync_def
      split: sum.splits prod.splits if_splits)

text \<open>
  Once the command has returned exit code 0, the temporary file is gone when the function
  returns, on the success path and on every failure path, unless the system refuses the
  deletion.
\<close>

lemma registerAKSCluster_cleans_after_download:
  assumes "az (credentialArgs subscriptionId resourceGroup clusterName managedNamespace (tempPath d os)) w
             = (Inr result, w1)"
      and "code result = 0"
      and "\<not> unlinkFails flt (tempPath d os)"
  shows "files (snd (registerAKSCluster d az env os flt subscriptionId resourceGroup clusterName
            isAzureRBACEnabled isDev resourcesPath managedNamespace w)) (tempPath d os) = None"
proof (cases "existsSync (tempPath d os) w1")
  case False
  with assms show ?thesis
    by (simp add: registerAKSCluster_def Let_def existsSync_def)
next
  case True
  obtain r w2 where m: "mergeIntoKubeconfig d env os flt isDev resourcesPath (tempPath d os) w1 = (r, w2)"
    by (cases "mergeIntoKubeconfig d env os flt isDev resourcesPath (tempPath d os) w1")
  show ?thesis
  proof (cases r)
    case (Inr u)
    with m have "files w2 (tempPath d os) = None"
      by (simp add: mergeIntoKubeconfig_ok_removes)
    with assms True m Inr show ?thesis
      by (simp add: registerAKSCluster_def Let_def)
  next
    case (Inl e)
    have "files (if existsSync (tempPath d os) w2
                 then snd (unlinkSync flt (tempPath d os) w2) else w2) (tempPath d os) = None"
      using assms(3) by (auto simp: unlinkSync_removes existsSync_def unlinkSync_def)
    with assms True m Inl show ?thesis
      by (simp add: registerAKSCluster_def Let_def)
  qed
qed

lemma sample_tempPath: "tempPath sampleLibs sampleOs = ''/tmp/kubeconfig-1700000000000.yaml''"
  by (simp add: tempPath_def sampleLibs_def sampleOs_def)

lemma last_credentialArgs: "last (credentialArgs s g c m t) = t"
  by (simp add: credentialArgs_def)

text \<open>
  C8 fails on the code: when the command leaves the temporary file behind and exits with a
  code other than 0, \<^verbatim>\<open>registerAKSCluster\<close> returns its failure from inside the
  \<^verbatim>\<open>try\<close>, past the cleanup of the \<^verbatim>\<open>catch\<close>, and the file is still there.
\<close>

theorem registerAKSCluster_leaves_temp_file:
  "fst (registerAKSCluster sampleLibs azCreatesFileThenFails sampleEnv sampleOs noFaults
          ''sub'' ''rg'' ''aks1'' True False ''/res'' None emptyWorld) =
     \<lparr>success = False,
      message = ''Failed to get credentials: ERROR: could not merge credentials''\<rparr> \<and>
   files (snd (registerAKSCluster sampleLibs azCreatesFileThenFails sampleEnv sampleOs noFaults
          ''sub'' ''rg'' ''aks1'' True False ''/res'' None emptyWorld))
     ''/tmp/kubeconfig-1700000000000.yaml'' = Some []"
  by (simp add: registerAKSCluster_def Let_def sample_tempPath azCreatesFileThenFails_def
        last_credentialArgs orDefault_def emptyWorld_def)

section \<open>Import orchestrator\<close>

text \<open>
  The records of \<^verbatim>\<open>ImportAKSProjects.tsx\<close>. The project name of a selection is the
  value of a label and may be undefined.
\<close>

record ManagedNamespace =
  ns_name :: string
  ns_clusterName :: string
  ns_resourceGroup :: string
  ns_subscriptionId :: string

record ImportSelection =
  namespace :: ManagedNamespace
  projectName :: "string option"
  selected :: bool
  clusterMerged :: bool

record ImportResult =
  r_namespace :: string
  r_success :: bool
  r_message :: string

text \<open>
  What a \<^verbatim>\<open>catch (err)\<close> receives: an \<^verbatim>\<open>Error\<close> with its message, or another value.
\<close>

datatype thrown = ErrorInstance string | NotAnError

text \<open>The arguments of one call of \<^verbatim>\<open>registerAKSCluster\<close> from the plugin.\<close>

record registerArgs =
  argSubscriptionId :: string
  argResourceGroup :: string
  argClusterName :: string
  argManagedNamespace :: "string option"

text \<open>The interface \<^verbatim>\<open>ClusterSettings\<close>, as stored under \<^verbatim>\<open>cluster_settings.<name>\<close>.\<close>

record ClusterSettings =
  allowedNamespaces :: "string list option"
  otherSettings :: obj

text \<open>
  \<^verbatim>\<open>handleImport\<close> comes in two revisions. \<open>Unscoped\<close> is
  \<^verbatim>\<open>src/plugins/aks-desktop/src/components/ImportAKSProjects/ImportAKSProjects.tsx\<close>: it
  registers a cluster without a namespace and appends to \<^verbatim>\<open>allowedNamespaces\<close>.
  \<open>Scoped\<close> is \<^verbatim>\<open>src/unnamed/part_001\<close>: it passes the first namespace of the group as
  \<^verbatim>\<open>managedNamespace\<close> and removes duplicates from \<^verbatim>\<open>allowedNamespaces\<close>. They agree
  in everything else.
\<close>

datatype revision = Unscoped | Scoped

text \<open>
  The state the loop works on: the local \<^verbatim>\<open>results\<close> array, the log of the registration
  calls made so far, \<^verbatim>\<open>localStorage\<close>, whatever the registration acts on outside the
  component, and the error banner. Progress texts and the success banner are not modelled.
\<close>

record 'w importState =
  results :: "ImportResult list"
  registrations :: "registerArgs list"
  localStorage :: "(string \<times> string) list"
  outside :: 'w
  errorText :: string

text \<open>
  What the component calls: \<^verbatim>\<open>registerAKSCluster\<close> of the plugin, which returns a result
  or throws, and \<^verbatim>\<open>JSON.parse\<close> and \<^verbatim>\<open>JSON.stringify\<close> on cluster settings, where
  \<open>Inr None\<close> is a stored \<^verbatim>\<open>null\<close> or scalar. Writes to \<^verbatim>\<open>localStorage\<close> are taken to
  succeed.
\<close>

record 'w importDeps =
  register :: "registerArgs \<Rightarrow> 'w \<Rightarrow> (thrown + RegisterAKSClusterResult) \<times> 'w"
  jsonParse :: "string \<Rightarrow> thrown + ClusterSettings option"
  jsonStringify :: "ClusterSettings \<Rightarrow> string"

text \<open>
  \<^verbatim>\<open>`${namespace.clusterName}|${namespace.resourceGroup}|${namespace.subscriptionId}`\<close>
\<close>

definition clusterKey :: "ManagedNamespace \<Rightarrow> string" where
  "clusterKey ns = ns_clusterName ns @ ''|'' @ ns_resourceGroup ns @ ''|'' @ ns_subscriptionId ns"

text \<open>
  The grouping loop on a \<^verbatim>\<open>Map\<close>, which keeps its keys in insertion order:
  \<^verbatim>\<open>if (!clusterMap.has(clusterKey)) clusterMap.set(clusterKey, []);
  clusterMap.get(clusterKey)!.push(item);\<close>
\<close>

definition addToClusterMap ::
  "(string \<times> ImportSelection list) list \<Rightarrow> ImportSelection \<Rightarrow> (string \<times> ImportSelection list) list" where
  "addToClusterMap clusterMap item =
     (let k = clusterKey (namespace item);
          m = (if map_of clusterMap k = None then AList.update k [] clusterMap else clusterMap)
      in AList.map_entry k (\<lambda>g. g @ [item]) m)"

definition groupByCluster :: "ImportSelection list \<Rightarrow> (string \<times> ImportSelection list) list" where
  "groupByCluster selectedNamespaces = foldl addToClusterMap [] selectedNamespaces"

text \<open>\<^verbatim>\<open>clusterKey.split('|')\<close>\<close>

fun splitOn :: "char \<Rightarrow> string \<Rightarrow> string list" where
  "splitOn sep [] = [[]]"
| "splitOn sep (c # cs) =
     (if c = sep then [] # splitOn sep cs
      else (case splitOn sep cs of
              [] \<Rightarrow> [[c]]
            | p # ps \<Rightarrow> (c # p) # ps))"

text \<open>
  \<^verbatim>\<open>const [clusterName, resourceGroup, subscriptionId] = clusterKey.split('|')\<close>. A key has
  two separators at least, so the cases with fewer than three parts are never reached;
  there a template would print \<^verbatim>\<open>undefined\<close>.
\<close>

fun firstThree :: "string list \<Rightarrow> string \<times> string \<times> string" where
  "firstThree (a # b # c # rest) = (a, b, c)"
| "firstThree [a, b] = (a, b, ''undefined'')"
| "firstThree [a] = (a, ''undefined'', ''undefined'')"
| "firstThree [] = (''undefined'', ''undefined'', ''undefined'')"

text \<open>The entries pushed to \<^verbatim>\<open>results\<close>.\<close>

definition itemLabel :: "string \<Rightarrow> ImportSelection \<Rightarrow> string" where
  "itemLabel clusterName item = ns_name (namespace item) @ '' ('' @ clusterName @ '')''"

definition failedItem :: "string \<Rightarrow> string \<Rightarrow> ImportSelection \<Rightarrow> ImportResult" where
  "failedItem clusterName msg item =
     \<lparr>r_namespace = itemLabel clusterName item, r_success = False, r_message = msg\<rparr>"

definition importedItem :: "string \<Rightarrow> ImportSelection \<Rightarrow> ImportResult" where
  "importedItem clusterName item =
     \<lparr>r_namespace = itemLabel clusterName item, r_success = True,
      r_message = ''Project '' @ [CHR 0x27] @
        (case projectName item of None \<Rightarrow> ''undefined'' | Some p \<Rightarrow> p) @ [CHR 0x27] @
        '' successfully imported from namespace '' @ [CHR 0x27] @ ns_name (namespace item) @
        [CHR 0x27]\<rparr>"

definition thrownMessage :: "thrown \<Rightarrow> string" where
  "thrownMessage t = (case t of ErrorInstance m \<Rightarrow> m | NotAnError \<Rightarrow> ''Unknown error'')"

text \<open>
  \<^verbatim>\<open>[...new Set(xs)]\<close>: the elements in the order of their first occurrence, after those
  already seen.
\<close>

fun uniqueInOrder :: "'a list \<Rightarrow> 'a list \<Rightarrow> 'a list" where
  "uniqueInOrder seen [] = seen"
| "uniqueInOrder seen (x # xs) = uniqueInOrder (if x \<in> set seen then seen else seen @ [x]) xs"

text \<open>
  The block ``add allowed namespaces'': read the settings of the cluster (\<^verbatim>\<open>'{}'\<close> when
  nothing is stored), push the names, store them again.
\<close>

definition addAllowedNamespaces ::
  "revision \<Rightarrow> 'w importDeps \<Rightarrow> string \<Rightarrow> string list \<Rightarrow> (string \<times> string) list \<Rightarrow>
   thrown + (string \<times> string) list" where
  "addAllowedNamespaces rv d clusterName names storage =
     (let key = ''cluster_settings.'' @ clusterName;
          text = (case map_of storage key of
                    None \<Rightarrow> ''{}''
                  | Some t \<Rightarrow> if t \<noteq> [] then t else ''{}'')
      in case jsonParse d text of
           Inl t \<Rightarrow> Inl t
         | Inr None \<Rightarrow> Inl (ErrorInstance ''TypeError'')
         | Inr (Some settings) \<Rightarrow>
             (let pushed = orEmpty (allowedNamespaces settings) @ names;
                  allowed = (case rv of Unscoped \<Rightarrow> pushed | Scoped \<Rightarrow> uniqueInOrder [] pushed)
              in Inr (AList.update key
                        (jsonStringify d (settings\<lparr>allowedNamespaces := Some allowed\<rparr>)) storage)))"

text \<open>
  The arguments of the call for a group: the parts of its key, and the managed namespace.
\<close>

definition clusterArgs :: "string \<Rightarrow> string option \<Rightarrow> registerArgs" where
  "clusterArgs key managedNamespace =
     (case firstThree (splitOn CHR ''|'' key) of
        (clusterName, resourceGroup, subscriptionId) \<Rightarrow>
          \<lparr>argSubscriptionId = subscriptionId, argResourceGroup = resourceGroup,
           argClusterName = clusterName, argManagedNamespace = managedNamespace\<rparr>)"

text \<open>
  The body of the \<^verbatim>\<open>try\<close> from the call of the registration on, with its \<^verbatim>\<open>catch\<close>:
  one call, then one entry per namespace of the group, whatever happened.
\<close>

definition registerCluster ::
  "revision \<Rightarrow> 'w importDeps \<Rightarrow> 'w importState \<Rightarrow> ImportSelection list \<Rightarrow> registerArgs \<Rightarrow>
   'w importState" where
  "registerCluster rv d st namespacesInCluster args =
     (let clusterName = argClusterName args
      in case register d args (outside st) of
        (outcome, w) \<Rightarrow>
          (let st1 = st\<lparr>registrations := registrations st @ [args], outside := w\<rparr>
           in case outcome of
             Inl t \<Rightarrow>
               st1\<lparr>results := results st1 @
                 map (failedItem clusterName (thrownMessage t)) namespacesInCluster\<rparr>
           | Inr registerResult \<Rightarrow>
               if \<not> success registerResult then
                 st1\<lparr>results := results st1 @
                   map (failedItem clusterName
                          (''Failed to merge cluster: '' @ message registerResult))
                     namespacesInCluster\<rparr>
               else
                 (case addAllowedNamespaces rv d clusterName
                         (map (\<lambda>it. ns_name (namespace it)) namespacesInCluster)
                         (localStorage st1) of
                    Inl t \<Rightarrow>
                      st1\<lparr>results := results st1 @
                        map (failedItem clusterName (thrownMessage t)) namespacesInCluster\<rparr>
                  | Inr storage \<Rightarrow>
                      st1\<lparr>localStorage := storage,
                          results := results st1 @
                            map (importedItem clusterName) namespacesInCluster\<rparr>)))"

text \<open>
  One round of \<^verbatim>\<open>for (const [clusterKey, namespacesInCluster] of clusterMap)\<close>. The
  revision \<open>Scoped\<close> first reads \<^verbatim>\<open>namespacesInCluster[0].namespace\<close> inside the
  \<^verbatim>\<open>try\<close>: on an empty group that raises, and the \<^verbatim>\<open>catch\<close> has no namespace to
  mark. The grouping never makes an empty group.
\<close>

definition processCluster ::
  "revision \<Rightarrow> 'w importDeps \<Rightarrow> 'w importState \<Rightarrow> string \<times> ImportSelection list \<Rightarrow> 'w importState" where
  "processCluster rv d st kv =
     (case kv of (key, namespacesInCluster) \<Rightarrow>
      (case rv of
         Unscoped \<Rightarrow> registerCluster rv d st namespacesInCluster (clusterArgs key None)
       | Scoped \<Rightarrow>
           (case namespacesInCluster of
              [] \<Rightarrow> st
            | first # others \<Rightarrow>
                registerCluster rv d st namespacesInCluster
                  (clusterArgs key (Some (ns_name (namespace first)))))))"

definition handleImport ::
  "revision \<Rightarrow> 'w importDeps \<Rightarrow> ImportSelection list \<Rightarrow> (string \<times> string) list \<Rightarrow> 'w \<Rightarrow>
   'w importState" where
  "handleImport rv d namespaces storage w =
     (let selectedNamespaces = filter selected namespaces;
          st0 = \<lparr>results = [], registrations = [], localStorage = storage, outside = w,
                 errorText = []\<rparr>
      in if selectedNamespaces = [] then
           st0\<lparr>errorText := ''Please select at least one namespace to import''\<rparr>
         else
           (let st = foldl (processCluster rv d) st0 (groupByCluster selectedNamespaces)
            in if filter r_success (results st) \<noteq> [] then st
               else st\<lparr>errorText := ''Failed to import any projects. See details below.''\<rparr>))"


subsection \<open>The orchestrator in the words of the specification\<close>

text \<open>
  The call made for a group with the key \<open>key\<close> whose first namespace is \<open>first\<close>.
\<close>

definition registerArgsFor ::
  "revision \<Rightarrow> string \<Rightarrow> ImportSelection \<Rightarrow> registerArgs" where
  "registerArgsFor rv key first =
     clusterArgs key (case rv of Unscoped \<Rightarrow> None | Scoped \<Rightarrow> Some (ns_name (namespace first)))"

text \<open>The triple (cluster, resource group, subscription) of a namespace and of a call.\<close>

definition nsTriple :: "ManagedNamespace \<Rightarrow> string \<times> string \<times> string" where
  "nsTriple ns = (ns_clusterName ns, ns_resourceGroup ns, ns_subscriptionId ns)"

definition regTriple :: "registerArgs \<Rightarrow> string \<times> string \<times> string" where
  "regTriple a = (argClusterName a, argResourceGroup a, argSubscriptionId a)"

text \<open>No part of the triple contains the separator of the key.\<close>

definition noSeparator :: "ManagedNamespace \<Rightarrow> bool" where
  "noSeparator ns \<longleftrightarrow> CHR ''|'' \<notin> set (ns_clusterName ns) \<and>
     CHR ''|'' \<notin> set (ns_resourceGroup ns) \<and> CHR ''|'' \<notin> set (ns_subscriptionId ns)"

definition itemKey :: "ImportSelection \<Rightarrow> string" where
  "itemKey item = clusterKey (namespace item)"

definition tripleOfKey :: "string \<Rightarrow> string \<times> string \<times> string" where
  "tripleOfKey key = firstThree (splitOn CHR ''|'' key)"

definition keyOfTriple :: "string \<times> string \<times> string \<Rightarrow> string" where
  "keyOfTriple t = (case t of (c, g, s) \<Rightarrow> c @ ''|'' @ g @ ''|'' @ s)"

text \<open>
  The partition: the keys in the order of their first occurrence, each with the selected
  namespaces of that key in their order.
\<close>

definition spec_groups :: "ImportSelection list \<Rightarrow> (string \<times> ImportSelection list) list" where
  "spec_groups items =
     map (\<lambda>k. (k, filter (\<lambda>it. itemKey it = k) items)) (uniqueInOrder [] (map itemKey items))"

definition groupTotal :: "(string \<times> ImportSelection list) list \<Rightarrow> nat" where
  "groupTotal m = sum_list (map (\<lambda>kv. length (snd kv)) m)"

subsection \<open>A batch of three namespaces in two clusters\<close>

definition sampleSettingsParse :: "string \<Rightarrow> thrown + ClusterSettings option" where
  "sampleSettingsParse t =
     (if t = ''{}'' then Inr (Some \<lparr>allowedNamespaces = None, otherSettings = []\<rparr>)
      else if t = ''null'' then Inr None
      else Inl (ErrorInstance ''Unexpected token''))"

definition sampleSettingsStringify :: "ClusterSettings \<Rightarrow> string" where
  "sampleSettingsStringify s =
     ''{allowedNamespaces:['' @ concat (map (\<lambda>n. n @ '','') (orEmpty (allowedNamespaces s))) @ '']}''"

definition sampleRegister :: "registerArgs \<Rightarrow> unit \<Rightarrow> (thrown + RegisterAKSClusterResult) \<times> unit" where
  "sampleRegister args w =
     (if argClusterName args = ''aks-b''
      then Inr \<lparr>success = False, message = ''Failed to get credentials: denied''\<rparr>
      else Inr \<lparr>success = True, message = ''registered''\<rparr>, w)"

definition sampleDeps :: "unit importDeps" where
  "sampleDeps = \<lparr>register = sampleRegister, jsonParse = sampleSettingsParse,
     jsonStringify = sampleSettingsStringify\<rparr>"

definition selection :: "string \<Rightarrow> string \<Rightarrow> string \<Rightarrow> string \<Rightarrow> ImportSelection" where
  "selection n c g s =
     \<lparr>namespace = \<lparr>ns_name = n, ns_clusterName = c, ns_resourceGroup = g, ns_subscriptionId = s\<rparr>,
      projectName = Some n, selected = True, clusterMerged = False\<rparr>"

definition threeAcrossTwo :: "ImportSelection list" where
  "threeAcrossTwo = [selection ''team-a'' ''aks-a'' ''rg'' ''sub'',
                     selection ''team-b'' ''aks-b'' ''rg'' ''sub'',
                     selection ''team-c'' ''aks-b'' ''rg'' ''sub'']"

definition ambiguousPair :: "ImportSelection list" where
  "ambiguousPair = [selection ''n1'' ''a|b'' ''c'' ''s'', selection ''n2'' ''a'' ''b|c'' ''s'']"

definition afterFirstCluster :: "unit importState" where
  "afterFirstCluster =
     \<lparr>results = [importedItem ''aks-a'' (selection ''team-a'' ''aks-a'' ''rg'' ''sub'')],
      registrations = [\<lparr>argSubscriptionId = ''sub'', argResourceGroup = ''rg'',
                        argClusterName = ''aks-a'', argManagedNamespace = None\<rparr>],
      localStorage = [(''cluster_settings.aks-a'', ''{allowedNamespaces:[team-a,]}'')],
      outside = (), errorText = []\<rparr>"

section \<open>Properties of the import orchestrator\<close>

lemma uniqueInOrder_snoc:
  "uniqueInOrder seen (xs @ [x]) =
     (if x \<in> set (uniqueInOrder seen xs) then uniqueInOrder seen xs
      else uniqueInOrder seen xs @ [x])"
  by (induction xs arbitrary: seen) simp_all

lemma set_uniqueInOrder: "set (uniqueInOrder seen xs) = set seen \<union> set xs"
  by (induction xs arbitrary: seen) auto

lemma distinct_uniqueInOrder: "distinct seen \<Longrightarrow> distinct (uniqueInOrder seen xs)"
  by (induction xs arbitrary: seen) simp_all

lemma uniqueInOrder_map:
  assumes "inj_on f (set seen \<union> set xs)"
  shows "uniqueInOrder (map f seen) (map f xs) = map f (uniqueInOrder seen xs)"
  using assms
proof (induction xs arbitrary: seen)
  case Nil
  then show ?case by simp
next
  case (Cons x xs)
  let ?seen' = "if x \<in> set seen then seen else seen @ [x]"
  have mem: "f x \<in> set (map f seen) \<longleftrightarrow> x \<in> set seen"
    using Cons.prems by (auto simp: inj_on_def)
  have inj': "inj_on f (set ?seen' \<union> set xs)"
    using Cons.prems by (auto simp: inj_on_def)
  have "uniqueInOrder (map f seen) (map f (x # xs)) = uniqueInOrder (map f ?seen') (map f xs)"
    using mem by simp
  also have "\<dots> = map f (uniqueInOrder ?seen' xs)"
    using inj' by (rule Cons.IH)
  finally show ?case by simp
qed

lemma update_absent: "k \<notin> fst ` set al \<Longrightarrow> AList.update k v al = al @ [(k, v)]"
  by (induction al) auto

lemma map_entry_absent: "k \<notin> fst ` set al \<Longrightarrow> AList.map_entry k f al = al"
  by (induction al) auto

lemma map_entry_append_absent:
  "k \<notin> fst ` set al \<Longrightarrow> AList.map_entry k f (al @ [(k, v)]) = al @ [(k, f v)]"
  by (induction al) auto

lemma map_entry_tabulate:
  "distinct ks \<Longrightarrow>
   AList.map_entry k f (map (\<lambda>j. (j, h j)) ks) = map (\<lambda>j. (j, if j = k then f (h j) else h j)) ks"
proof (induction ks)
  case Nil
  then show ?case by simp
next
  case (Cons j ks)
  show ?case
  proof (cases "j = k")
    case True
    with Cons.prems have "k \<notin> set ks" by simp
    then have "map (\<lambda>j. (j, h j)) ks = map (\<lambda>j. (j, if j = k then f (h j) else h j)) ks"
      by (intro map_cong) auto
    with True show ?thesis by simp
  next
    case False
    with Cons show ?thesis by simp
  qed
qed

lemma groupByCluster_snoc: "groupByCluster (items @ [x]) = addToClusterMap (groupByCluster items) x"
  by (simp add: groupByCluster_def)

lemma fst_spec_groups: "map fst (spec_groups items) = uniqueInOrder [] (map itemKey items)"
  by (simp add: spec_groups_def comp_def)

lemma addToClusterMap_spec_groups: "addToClusterMap (spec_groups items) x = spec_groups (items @ [x])"
proof -
  let ?ks = "uniqueInOrder [] (map itemKey items)"
  let ?k = "itemKey x"
  have dk: "distinct ?ks" by (simp add: distinct_uniqueInOrder)
  have keys: "fst ` set (spec_groups items) = set ?ks"
    using fst_spec_groups[of items] by (metis set_map)
  show ?thesis
  proof (cases "?k \<in> set ?ks")
    case True
    then have present: "map_of (spec_groups items) ?k \<noteq> None"
      using keys by (simp add: map_of_eq_None_iff)
    have "addToClusterMap (spec_groups items) x =
            AList.map_entry ?k (\<lambda>g. g @ [x]) (spec_groups items)"
      using present by (auto simp: addToClusterMap_def Let_def itemKey_def)
    also have "\<dots> = map (\<lambda>j. (j, if j = ?k then filter (\<lambda>it. itemKey it = j) items @ [x]
                                   else filter (\<lambda>it. itemKey it = j) items)) ?ks"
      unfolding spec_groups_def using dk by (rule map_entry_tabulate)
    also have "\<dots> = map (\<lambda>j. (j, filter (\<lambda>it. itemKey it = j) (items @ [x]))) ?ks"
      by (intro map_cong) auto
    also have "\<dots> = spec_groups (items @ [x])"
      using True by (simp add: spec_groups_def uniqueInOrder_snoc)
    finally show ?thesis .
  next
    case False
    then have absent: "map_of (spec_groups items) ?k = None" and nk: "?k \<notin> fst ` set (spec_groups items)"
      using keys by (simp_all add: map_of_eq_None_iff)
    from False have notin: "?k \<notin> itemKey ` set items"
      by (simp add: set_uniqueInOrder)
    have none: "filter (\<lambda>it. itemKey it = ?k) items = []"
      unfolding filter_empty_conv using notin by (metis image_eqI)
    have "addToClusterMap (spec_groups items) x =
            AList.map_entry ?k (\<lambda>g. g @ [x]) (AList.update ?k [] (spec_groups items))"
      using absent by (auto simp: addToClusterMap_def Let_def itemKey_def)
    also have "\<dots> = spec_groups items @ [(?k, [x])]"
      using nk by (simp add: update_absent map_entry_append_absent)
    finally have step: "addToClusterMap (spec_groups items) x = spec_groups items @ [(?k, [x])]" .
    have same: "map (\<lambda>j. (j, filter (\<lambda>it. itemKey it = j) (items @ [x]))) ?ks = spec_groups items"
      unfolding spec_groups_def using False by (intro map_cong) auto
    have "spec_groups (items @ [x]) =
            map (\<lambda>j. (j, filter (\<lambda>it. itemKey it = j) (items @ [x]))) (?ks @ [?k])"
      using False by (simp add: spec_groups_def uniqueInOrder_snoc)
    also have "\<dots> = map (\<lambda>j. (j, filter (\<lambda>it. itemKey it = j) (items @ [x]))) ?ks @
                      [(?k, filter (\<lambda>it. itemKey it = ?k) (items @ [x]))]"
      by simp
    also have "\<dots> = spec_groups items @ [(?k, [x])]"
      unfolding same using none by simp
    finally show ?thesis using step by simp
  qed
qed

lemma groupByCluster_spec: "groupByCluster items = spec_groups items"
proof (induction items rule: rev_induct)
  case Nil
  then show ?case by (simp add: groupByCluster_def spec_groups_def)
next
  case (snoc x items)
  then show ?case by (simp add: groupByCluster_snoc addToClusterMap_spec_groups)
qed

lemma groups_nonempty:
  assumes "(k, g) \<in> set (groupByCluster items)"
  shows "g \<noteq> []"
proof -
  from assms have k: "k \<in> set (map itemKey items)" and g: "g = filter (\<lambda>it. itemKey it = k) items"
    by (auto simp: groupByCluster_spec spec_groups_def set_uniqueInOrder)
  from k obtain it where "it \<in> set items" "itemKey it = k" by auto
  then show ?thesis unfolding g by (auto simp: filter_empty_conv)
qed


lemma groupTotal_map_entry:
  "k \<in> fst ` set al \<Longrightarrow> groupTotal (AList.map_entry k (\<lambda>g. g @ [x]) al) = Suc (groupTotal al)"
  by (induction al) (auto simp: groupTotal_def)

lemma groupTotal_addToClusterMap: "groupTotal (addToClusterMap m x) = Suc (groupTotal m)"
proof (cases "map_of m (clusterKey (namespace x)) = None")
  case True
  then have nk: "clusterKey (namespace x) \<notin> fst ` set m"
    by (simp add: map_of_eq_None_iff)
  have "groupTotal (m @ [(clusterKey (namespace x), [x])]) = Suc (groupTotal m)"
    by (simp add: groupTotal_def)
  with True nk show ?thesis
    by (simp add: addToClusterMap_def Let_def update_absent map_entry_append_absent)
next
  case False
  then have "clusterKey (namespace x) \<in> fst ` set m"
    by (simp add: map_of_eq_None_iff)
  with False show ?thesis
    by (auto simp: addToClusterMap_def Let_def groupTotal_map_entry)
qed

lemma groupTotal_foldl: "groupTotal (foldl addToClusterMap m items) = groupTotal m + length items"
  by (induction items arbitrary: m) (simp_all add: groupTotal_addToClusterMap)

lemma groupTotal_groupByCluster: "groupTotal (groupByCluster items) = length items"
  by (simp add: groupByCluster_def groupTotal_foldl) (simp add: groupTotal_def)

lemma registerCluster_shape:
  "\<exists>w S f. registerCluster rv d st g args =
      st\<lparr>results := results st @ map f g,
         registrations := registrations st @ [args],
         localStorage := S, outside := w\<rparr> \<and>
      (\<forall>it. r_namespace (f it) = itemLabel (argClusterName args) it)"
proof -
  let ?c = "argClusterName args"
  obtain outcome w where reg: "register d args (outside st) = (outcome, w)"
    by (cases "register d args (outside st)")
  have fl: "\<forall>it. r_namespace (failedItem ?c msg it) = itemLabel ?c it" for msg
    by (simp add: failedItem_def)
  have il: "\<forall>it. r_namespace (importedItem ?c it) = itemLabel ?c it"
    by (simp add: importedItem_def)
  show ?thesis
  proof (cases outcome)
    case (Inl t)
    with reg have "registerCluster rv d st g args =
        st\<lparr>results := results st @ map (failedItem ?c (thrownMessage t)) g,
           registrations := registrations st @ [args],
           localStorage := localStorage st, outside := w\<rparr>"
      by (simp add: registerCluster_def Let_def)
    with fl show ?thesis by blast
  next
    case (Inr res)
    show ?thesis
    proof (cases "success res")
      case False
      with reg Inr have "registerCluster rv d st g args =
          st\<lparr>results := results st @
               map (failedItem ?c (''Failed to merge cluster: '' @ message res)) g,
             registrations := registrations st @ [args],
             localStorage := localStorage st, outside := w\<rparr>"
        by (simp add: registerCluster_def Let_def)
      with fl show ?thesis by blast
    next
      case True
      let ?store = "addAllowedNamespaces rv d ?c (map (\<lambda>it. ns_name (namespace it)) g)
                      (localStorage st)"
      show ?thesis
      proof (cases ?store)
        case (Inl t)
        with reg Inr True have "registerCluster rv d st g args =
            st\<lparr>results := results st @ map (failedItem ?c (thrownMessage t)) g,
               registrations := registrations st @ [args],
               localStorage := localStorage st, outside := w\<rparr>"
          by (simp add: registerCluster_def Let_def)
        with fl show ?thesis by blast
      next
        case (Inr S)
        with reg \<open>outcome = Inr res\<close> True have "registerCluster rv d st g args =
            st\<lparr>results := results st @ map (importedItem ?c) g,
               registrations := registrations st @ [args],
               localStorage := S, outside := w\<rparr>"
          by (simp add: registerCluster_def Let_def)
        with il show ?thesis by blast
      qed
    qed
  qed
qed

lemma processCluster_nonempty:
  "processCluster rv d st (k, first # others) =
     registerCluster rv d st (first # others) (registerArgsFor rv k first)"
  by (cases rv) (simp_all add: processCluster_def registerArgsFor_def)

lemma processCluster_empty: "results (processCluster rv d st (k, [])) = results st"
proof (cases rv)
  case Unscoped
  from registerCluster_shape[of Unscoped d st "[]" "clusterArgs k None"] Unscoped
  show ?thesis by (auto simp: processCluster_def)
next
  case Scoped
  then show ?thesis by (simp add: processCluster_def)
qed

lemma processCluster_shape:
  "\<exists>w S f. processCluster rv d st (k, first # others) =
      st\<lparr>results := results st @ map f (first # others),
         registrations := registrations st @ [registerArgsFor rv k first],
         localStorage := S, outside := w\<rparr> \<and>
      (\<forall>it. r_namespace (f it) = itemLabel (argClusterName (registerArgsFor rv k first)) it)"
  unfolding processCluster_nonempty by (rule registerCluster_shape)

lemma processCluster_results_length:
  "length (results (processCluster rv d st (k, g))) = length (results st) + length g"
proof (cases g)
  case Nil
  then show ?thesis by (simp add: processCluster_empty)
next
  case (Cons first others)
  from processCluster_shape[of rv d st k first others] Cons show ?thesis by auto
qed

lemma processCluster_registrations:
  "registrations (processCluster rv d st (k, first # others)) =
     registrations st @ [registerArgsFor rv k first]"
  using processCluster_shape[of rv d st k first others] by auto

lemma processCluster_labels:
  "map r_namespace (results (processCluster rv d st (k, g))) =
     map r_namespace (results st) @
     map (itemLabel (fst (tripleOfKey k))) g"
proof (cases g)
  case Nil
  then show ?thesis by (simp add: processCluster_empty)
next
  case (Cons first others)
  have c: "argClusterName (registerArgsFor rv k first) = fst (tripleOfKey k)"
    by (simp add: registerArgsFor_def clusterArgs_def tripleOfKey_def split: prod.splits)
  from processCluster_shape[of rv d st k first others] Cons show ?thesis
    unfolding c by auto
qed

lemma foldl_results_length:
  "length (results (foldl (processCluster rv d) st gs)) = length (results st) + groupTotal gs"
proof (induction gs arbitrary: st)
  case Nil
  then show ?case by (simp add: groupTotal_def)
next
  case (Cons kv gs)
  obtain k g where kv: "kv = (k, g)" by (cases kv)
  have "groupTotal (kv # gs) = length g + groupTotal gs"
    by (simp add: groupTotal_def kv)
  with Cons.IH[of "processCluster rv d st kv"] show ?case
    by (simp add: kv processCluster_results_length)
qed

lemma foldl_labels:
  "map r_namespace (results (foldl (processCluster rv d) st gs)) =
     map r_namespace (results st) @
     concat (map (\<lambda>kv. map (itemLabel (fst (tripleOfKey (fst kv)))) (snd kv)) gs)"
proof (induction gs arbitrary: st)
  case Nil
  then show ?case by simp
next
  case (Cons kv gs)
  obtain k g where kv: "kv = (k, g)" by (cases kv)
  from Cons.IH[of "processCluster rv d st kv"] show ?case
    by (simp add: kv processCluster_labels)
qed

lemma foldl_registrations:
  assumes "\<forall>kv\<in>set gs. snd kv \<noteq> []"
  shows "registrations (foldl (processCluster rv d) st gs) =
           registrations st @ map (\<lambda>kv. registerArgsFor rv (fst kv) (hd (snd kv))) gs"
  using assms
proof (induction gs arbitrary: st)
  case Nil
  then show ?case by simp
next
  case (Cons kv gs)
  obtain k g where kv: "kv = (k, g)" by (cases kv)
  from Cons.prems kv obtain first others where g: "g = first # others"
    by (cases g) auto
  from Cons.prems have rest: "\<forall>kv\<in>set gs. snd kv \<noteq> []" by simp
  from Cons.IH[OF rest, of "processCluster rv d st kv"] show ?case
    by (simp add: kv g processCluster_registrations)
qed

lemma regTriple_registerArgsFor: "regTriple (registerArgsFor rv k first) = tripleOfKey k"
  by (simp add: regTriple_def registerArgsFor_def clusterArgs_def tripleOfKey_def
        split: prod.splits)

lemma splitOn_no_sep: "sep \<notin> set s \<Longrightarrow> splitOn sep s = [s]"
  by (induction s) auto

lemma splitOn_append: "sep \<notin> set a \<Longrightarrow> splitOn sep (a @ sep # rest) = a # splitOn sep rest"
  by (induction a) auto

lemma tripleOfKey_clusterKey: "noSeparator ns \<Longrightarrow> tripleOfKey (clusterKey ns) = nsTriple ns"
  by (simp add: tripleOfKey_def clusterKey_def noSeparator_def nsTriple_def splitOn_append
        splitOn_no_sep)

lemma keyOfTriple_nsTriple: "keyOfTriple (nsTriple ns) = clusterKey ns"
  by (simp add: keyOfTriple_def nsTriple_def clusterKey_def)


lemma handleImport_registrations:
  "registrations (handleImport rv d namespaces storage w) =
     map (\<lambda>kv. registerArgsFor rv (fst kv) (hd (snd kv))) (groupByCluster (filter selected namespaces))"
proof (cases "filter selected namespaces = []")
  case True
  then show ?thesis by (simp add: handleImport_def Let_def groupByCluster_def)
next
  case False
  have ne: "\<forall>kv\<in>set (groupByCluster (filter selected namespaces)). snd kv \<noteq> []"
    using groups_nonempty by fastforce
  from False show ?thesis
    by (simp add: handleImport_def Let_def foldl_registrations[OF ne])
qed

lemma handleImport_results_length:
  "length (results (handleImport rv d namespaces storage w)) = length (filter selected namespaces)"
proof (cases "filter selected namespaces = []")
  case True
  then show ?thesis by (simp add: handleImport_def Let_def)
next
  case False
  then show ?thesis
    by (simp add: handleImport_def Let_def foldl_results_length groupTotal_groupByCluster)
qed

lemma handleImport_labels:
  "map r_namespace (results (handleImport rv d namespaces storage w)) =
     concat (map (\<lambda>kv. map (itemLabel (fst (tripleOfKey (fst kv)))) (snd kv))
               (groupByCluster (filter selected namespaces)))"
proof (cases "filter selected namespaces = []")
  case True
  then show ?thesis by (simp add: handleImport_def Let_def groupByCluster_def)
next
  case False
  then show ?thesis
    by (simp add: handleImport_def Let_def foldl_labels)
qed

text \<open>
  C3, as the code has it: when no cluster name, resource group or subscription id of a
  selected namespace contains the character \<open>|\<close>, the registration is called once for each
  distinct triple of the selection, in the order in which the triples first occur, however
  many selected namespaces share a triple.
\<close>

theorem handleImport_registers_once_per_cluster:
  assumes "\<forall>it\<in>set namespaces. selected it \<longrightarrow> noSeparator (namespace it)"
  shows "map regTriple (registrations (handleImport rv d namespaces storage w)) =
           uniqueInOrder [] (map (\<lambda>it. nsTriple (namespace it)) (filter selected namespaces)) \<and>
         distinct (map regTriple (registrations (handleImport rv d namespaces storage w))) \<and>
         set (map regTriple (registrations (handleImport rv d namespaces storage w))) =
           (\<lambda>it. nsTriple (namespace it)) ` set (filter selected namespaces) \<and>
         length (registrations (handleImport rv d namespaces storage w)) =
           card ((\<lambda>it. nsTriple (namespace it)) ` set (filter selected namespaces))"
proof -
  let ?sel = "filter selected namespaces"
  let ?regs = "map regTriple (registrations (handleImport rv d namespaces storage w))"
  have ok: "\<forall>it\<in>set ?sel. noSeparator (namespace it)"
    using assms by simp
  have inv: "\<forall>k\<in>set (map itemKey ?sel). keyOfTriple (tripleOfKey k) = k"
  proof
    fix k assume "k \<in> set (map itemKey ?sel)"
    then obtain it where it: "it \<in> set ?sel" and k: "k = clusterKey (namespace it)"
      by (auto simp: itemKey_def)
    from ok it have "noSeparator (namespace it)" by blast
    then show "keyOfTriple (tripleOfKey k) = k"
      unfolding k by (simp add: tripleOfKey_clusterKey keyOfTriple_nsTriple)
  qed
  have inj: "inj_on tripleOfKey (set [] \<union> set (map itemKey ?sel))"
    using inv by (intro inj_on_inverseI[where g = keyOfTriple]) auto
  have triples: "map tripleOfKey (map itemKey ?sel) = map (\<lambda>it. nsTriple (namespace it)) ?sel"
    using ok by (simp add: itemKey_def tripleOfKey_clusterKey)
  have "?regs = map tripleOfKey (map fst (groupByCluster ?sel))"
    by (simp add: handleImport_registrations regTriple_registerArgsFor comp_def)
  also have "\<dots> = map tripleOfKey (uniqueInOrder [] (map itemKey ?sel))"
    by (simp add: groupByCluster_spec fst_spec_groups)
  also have "\<dots> = uniqueInOrder (map tripleOfKey []) (map tripleOfKey (map itemKey ?sel))"
    using inj by (rule uniqueInOrder_map[symmetric])
  also have "\<dots> = uniqueInOrder [] (map (\<lambda>it. nsTriple (namespace it)) ?sel)"
    unfolding triples by simp
  finally have eq: "?regs = uniqueInOrder [] (map (\<lambda>it. nsTriple (namespace it)) ?sel)" .
  have d: "distinct ?regs"
    unfolding eq by (simp add: distinct_uniqueInOrder)
  have st: "set ?regs = (\<lambda>it. nsTriple (namespace it)) ` set ?sel"
    unfolding eq by (simp add: set_uniqueInOrder)
  have "length (registrations (handleImport rv d namespaces storage w)) = length ?regs"
    by simp
  also have "\<dots> = card (set ?regs)"
    using distinct_card[OF d] by simp
  finally have len: "length (registrations (handleImport rv d namespaces storage w)) =
      card ((\<lambda>it. nsTriple (namespace it)) ` set ?sel)"
    unfolding st .
  from eq d st len show ?thesis by blast
qed


theorem handleImport_registers_once_per_cluster_witness:
  "map regTriple (registrations (handleImport Unscoped sampleDeps threeAcrossTwo [] ())) =
     [(''aks-a'', ''rg'', ''sub''), (''aks-b'', ''rg'', ''sub'')] \<and>
   length (registrations (handleImport Unscoped sampleDeps threeAcrossTwo [] ())) = 2"
proof -
  have ok: "\<forall>it\<in>set threeAcrossTwo. selected it \<longrightarrow> noSeparator (namespace it)"
    by (simp add: threeAcrossTwo_def selection_def noSeparator_def)
  have sel: "filter selected threeAcrossTwo = threeAcrossTwo"
    by (simp add: threeAcrossTwo_def selection_def)
  have u: "uniqueInOrder [] (map (\<lambda>it. nsTriple (namespace it)) threeAcrossTwo) =
      [(''aks-a'', ''rg'', ''sub''), (''aks-b'', ''rg'', ''sub'')]"
    by (simp add: threeAcrossTwo_def selection_def nsTriple_def)
  from handleImport_registers_once_per_cluster[OF ok, of Unscoped sampleDeps "[]" "()"]
  have eq: "map regTriple (registrations (handleImport Unscoped sampleDeps threeAcrossTwo [] ())) =
      [(''aks-a'', ''rg'', ''sub''), (''aks-b'', ''rg'', ''sub'')]"
    unfolding sel u by blast
  from arg_cong[OF eq, of length] have "length (registrations (handleImport Unscoped sampleDeps threeAcrossTwo [] ())) = 2"
    by simp
  with eq show ?thesis by blast
qed

text \<open>
  C3 as stated fails on strings with the separator: the triples \<open>(a|b, c, s)\<close> and
  \<open>(a, b|c, s)\<close> differ and share the key \<open>a|b|c|s\<close>, so the two namespaces are one group
  and the registration is called once, for cluster \<open>a\<close> in resource group \<open>b\<close> of
  subscription \<open>c\<close>.
\<close>

lemma ambiguous_groups:
  "groupByCluster ambiguousPair =
     [(''a|b|c|s'', [selection ''n1'' ''a|b'' ''c'' ''s'', selection ''n2'' ''a'' ''b|c'' ''s''])]"
  by (simp add: groupByCluster_def ambiguousPair_def addToClusterMap_def selection_def
        clusterKey_def Let_def)

theorem handleImport_registers_once_per_cluster_counterexample:
  "nsTriple (namespace (selection ''n1'' ''a|b'' ''c'' ''s'')) \<noteq>
     nsTriple (namespace (selection ''n2'' ''a'' ''b|c'' ''s'')) \<and>
   registrations (handleImport Unscoped sampleDeps ambiguousPair [] ()) =
     [\<lparr>argSubscriptionId = ''c'', argResourceGroup = ''b'', argClusterName = ''a'',
       argManagedNamespace = None\<rparr>]"
proof -
  have sel: "filter selected ambiguousPair = ambiguousPair"
    by (simp add: ambiguousPair_def selection_def)
  have "registrations (handleImport Unscoped sampleDeps ambiguousPair [] ()) =
     [\<lparr>argSubscriptionId = ''c'', argResourceGroup = ''b'', argClusterName = ''a'',
       argManagedNamespace = None\<rparr>]"
    unfolding handleImport_registrations sel ambiguous_groups
    by (simp add: registerArgsFor_def clusterArgs_def)
  then show ?thesis by (simp add: selection_def nsTriple_def)
qed

text \<open>
  C4: the results hold one entry for each selected namespace, labelled with the namespace
  and the cluster of its group, in the order of the groups; every group is registered,
  whatever happened to the groups before it; and when the registration of a group fails (a
  result with \<^verbatim>\<open>success: false\<close>, or a throw) every namespace of the group gets a failed
  entry with the message of the registration, and the loop goes on with the remaining groups.
  The witness is the batch of three namespaces in two clusters, the second of which holds two
  of them and fails: one success and two failures.
\<close>

theorem handleImport_partial_failure:
  "length (results (handleImport rv d namespaces storage w)) = length (filter selected namespaces) \<and>
   map r_namespace (results (handleImport rv d namespaces storage w)) =
     concat (map (\<lambda>kv. map (itemLabel (fst (tripleOfKey (fst kv)))) (snd kv))
               (groupByCluster (filter selected namespaces))) \<and>
   length (registrations (handleImport rv d namespaces storage w)) =
     length (groupByCluster (filter selected namespaces)) \<and>
   (\<forall>st key first others rest m w'.
      register d (registerArgsFor rv key first) (outside st) =
        (Inr \<lparr>success = False, message = m\<rparr>, w') \<longrightarrow>
      foldl (processCluster rv d) st ((key, first # others) # rest) =
        foldl (processCluster rv d)
          (st\<lparr>results := results st @
                 map (failedItem (argClusterName (registerArgsFor rv key first))
                        (''Failed to merge cluster: '' @ m)) (first # others),
               registrations := registrations st @ [registerArgsFor rv key first],
               outside := w'\<rparr>) rest) \<and>
   (\<forall>st key first others rest t w'.
      register d (registerArgsFor rv key first) (outside st) = (Inl t, w') \<longrightarrow>
      foldl (processCluster rv d) st ((key, first # others) # rest) =
        foldl (processCluster rv d)
          (st\<lparr>results := results st @
                 map (failedItem (argClusterName (registerArgsFor rv key first))
                        (thrownMessage t)) (first # others),
               registrations := registrations st @ [registerArgsFor rv key first],
               outside := w'\<rparr>) rest)"
proof (intro conjI allI impI)
  show "length (results (handleImport rv d namespaces storage w)) = length (filter selected namespaces)"
    by (rule handleImport_results_length)
next
  show "map r_namespace (results (handleImport rv d namespaces storage w)) =
     concat (map (\<lambda>kv. map (itemLabel (fst (tripleOfKey (fst kv)))) (snd kv))
               (groupByCluster (filter selected namespaces)))"
    by (rule handleImport_labels)
next
  show "length (registrations (handleImport rv d namespaces storage w)) =
     length (groupByCluster (filter selected namespaces))"
    by (simp add: handleImport_registrations)
next
  fix st :: "'a importState" and key first others rest m w'
  assume "register d (registerArgsFor rv key first) (outside st) =
        (Inr \<lparr>success = False, message = m\<rparr>, w')"
  then have "processCluster rv d st (key, first # others) =
          st\<lparr>results := results st @
                 map (failedItem (argClusterName (registerArgsFor rv key first))
                        (''Failed to merge cluster: '' @ m)) (first # others),
               registrations := registrations st @ [registerArgsFor rv key first],
               outside := w'\<rparr>"
    by (cases st) (simp add: processCluster_nonempty registerCluster_def Let_def)
  then show "foldl (processCluster rv d) st ((key, first # others) # rest) =
        foldl (processCluster rv d)
          (st\<lparr>results := results st @
                 map (failedItem (argClusterName (registerArgsFor rv key first))
                        (''Failed to merge cluster: '' @ m)) (first # others),
               registrations := registrations st @ [registerArgsFor rv key first],
               outside := w'\<rparr>) rest"
    by simp
next
  fix st :: "'a importState" and key first others rest t w'
  assume "register d (registerArgsFor rv key first) (outside st) = (Inl t, w')"
  then have "processCluster rv d st (key, first # others) =
          st\<lparr>results := results st @
                 map (failedItem (argClusterName (registerArgsFor rv key first))
                        (thrownMessage t)) (first # others),
               registrations := registrations st @ [registerArgsFor rv key first],
               outside := w'\<rparr>"
    by (cases st) (simp add: processCluster_nonempty registerCluster_def Let_def)
  then show "foldl (processCluster rv d) st ((key, first # others) # rest) =
        foldl (processCluster rv d)
          (st\<lparr>results := results st @
                 map (failedItem (argClusterName (registerArgsFor rv key first))
                        (thrownMessage t)) (first # others),
               registrations := registrations st @ [registerArgsFor rv key first],
               outside := w'\<rparr>) rest"
    by simp
qed


lemma threeAcrossTwo_groups:
  "groupByCluster threeAcrossTwo =
     [(''aks-a|rg|sub'', [selection ''team-a'' ''aks-a'' ''rg'' ''sub'']),
      (''aks-b|rg|sub'', [selection ''team-b'' ''aks-b'' ''rg'' ''sub'',
                          selection ''team-c'' ''aks-b'' ''rg'' ''sub''])]"
  by (simp add: groupByCluster_def threeAcrossTwo_def addToClusterMap_def selection_def
        clusterKey_def Let_def)

lemma sample_args:
  "registerArgsFor Unscoped ''aks-a|rg|sub'' it =
     \<lparr>argSubscriptionId = ''sub'', argResourceGroup = ''rg'', argClusterName = ''aks-a'',
      argManagedNamespace = None\<rparr>"
  "registerArgsFor Unscoped ''aks-b|rg|sub'' it =
     \<lparr>argSubscriptionId = ''sub'', argResourceGroup = ''rg'', argClusterName = ''aks-b'',
      argManagedNamespace = None\<rparr>"
  by (simp_all add: registerArgsFor_def clusterArgs_def)

lemma sample_first_cluster:
  "processCluster Unscoped sampleDeps
     \<lparr>results = [], registrations = [], localStorage = [], outside = (), errorText = []\<rparr>
     (''aks-a|rg|sub'', [selection ''team-a'' ''aks-a'' ''rg'' ''sub'']) = afterFirstCluster"
  by (simp add: processCluster_nonempty registerCluster_def sample_args sampleDeps_def
        sampleRegister_def Let_def
        addAllowedNamespaces_def sampleSettingsParse_def sampleSettingsStringify_def orEmpty_def
        afterFirstCluster_def selection_def)

theorem handleImport_partial_failure_witness:
  "results (handleImport Unscoped sampleDeps threeAcrossTwo [] ()) =
     [importedItem ''aks-a'' (selection ''team-a'' ''aks-a'' ''rg'' ''sub''),
      \<lparr>r_namespace = ''team-b (aks-b)'', r_success = False,
       r_message = ''Failed to merge cluster: Failed to get credentials: denied''\<rparr>,
      \<lparr>r_namespace = ''team-c (aks-b)'', r_success = False,
       r_message = ''Failed to merge cluster: Failed to get credentials: denied''\<rparr>] \<and>
   r_success (importedItem ''aks-a'' (selection ''team-a'' ''aks-a'' ''rg'' ''sub'')) \<and>
   length (results (handleImport Unscoped sampleDeps threeAcrossTwo [] ())) = 3 \<and>
   length (registrations (handleImport Unscoped sampleDeps threeAcrossTwo [] ())) = 2"
proof -
  note main = handleImport_partial_failure[of Unscoped sampleDeps threeAcrossTwo "[]" "()"]
  have sel: "filter selected threeAcrossTwo = threeAcrossTwo"
    by (simp add: threeAcrossTwo_def selection_def)
  have fails: "register sampleDeps
      (registerArgsFor Unscoped ''aks-b|rg|sub'' (selection ''team-b'' ''aks-b'' ''rg'' ''sub''))
      (outside afterFirstCluster) =
      (Inr \<lparr>success = False, message = ''Failed to get credentials: denied''\<rparr>, ())"
    by (simp add: sample_args sampleDeps_def sampleRegister_def)
  from main have step: "\<forall>st key first others rest m w'.
      register sampleDeps (registerArgsFor Unscoped key first) (outside st) =
        (Inr \<lparr>success = False, message = m\<rparr>, w') \<longrightarrow>
      foldl (processCluster Unscoped sampleDeps) st ((key, first # others) # rest) =
        foldl (processCluster Unscoped sampleDeps)
          (st\<lparr>results := results st @
                 map (failedItem (argClusterName (registerArgsFor Unscoped key first))
                        (''Failed to merge cluster: '' @ m)) (first # others),
               registrations := registrations st @ [registerArgsFor Unscoped key first],
               outside := w'\<rparr>) rest"
    by blast
  from step[rule_format, OF fails, of "[selection ''team-c'' ''aks-b'' ''rg'' ''sub'']" "[]"]
  have second: "foldl (processCluster Unscoped sampleDeps) afterFirstCluster
      [(''aks-b|rg|sub'', [selection ''team-b'' ''aks-b'' ''rg'' ''sub'',
                           selection ''team-c'' ''aks-b'' ''rg'' ''sub''])] =
      afterFirstCluster\<lparr>results := results afterFirstCluster @
          map (failedItem ''aks-b'' ''Failed to merge cluster: Failed to get credentials: denied'')
            [selection ''team-b'' ''aks-b'' ''rg'' ''sub'', selection ''team-c'' ''aks-b'' ''rg'' ''sub''],
        registrations := registrations afterFirstCluster @
          [\<lparr>argSubscriptionId = ''sub'', argResourceGroup = ''rg'', argClusterName = ''aks-b'',
            argManagedNamespace = None\<rparr>],
        outside := ()\<rparr>"
    by (simp add: sample_args)
  have loop: "foldl (processCluster Unscoped sampleDeps)
      \<lparr>results = [], registrations = [], localStorage = [], outside = (), errorText = []\<rparr>
      (groupByCluster threeAcrossTwo) =
      afterFirstCluster\<lparr>results := results afterFirstCluster @
          map (failedItem ''aks-b'' ''Failed to merge cluster: Failed to get credentials: denied'')
            [selection ''team-b'' ''aks-b'' ''rg'' ''sub'', selection ''team-c'' ''aks-b'' ''rg'' ''sub''],
        registrations := registrations afterFirstCluster @
          [\<lparr>argSubscriptionId = ''sub'', argResourceGroup = ''rg'', argClusterName = ''aks-b'',
            argManagedNamespace = None\<rparr>],
        outside := ()\<rparr>"
    unfolding threeAcrossTwo_groups using second by (simp add: sample_first_cluster)
  have res: "results (handleImport Unscoped sampleDeps threeAcrossTwo [] ()) =
     [importedItem ''aks-a'' (selection ''team-a'' ''aks-a'' ''rg'' ''sub''),
      \<lparr>r_namespace = ''team-b (aks-b)'', r_success = False,
       r_message = ''Failed to merge cluster: Failed to get credentials: denied''\<rparr>,
      \<lparr>r_namespace = ''team-c (aks-b)'', r_success = False,
       r_message = ''Failed to merge cluster: Failed to get credentials: denied''\<rparr>]"
    unfolding handleImport_def Let_def sel loop
    by (simp add: threeAcrossTwo_def afterFirstCluster_def failedItem_def itemLabel_def
          selection_def importedItem_def)
  have ok: "r_success (importedItem ''aks-a'' (selection ''team-a'' ''aks-a'' ''rg'' ''sub''))"
    by (simp add: importedItem_def)
  from main sel threeAcrossTwo_groups
  have "length (results (handleImport Unscoped sampleDeps threeAcrossTwo [] ())) = 3"
    and "length (registrations (handleImport Unscoped sampleDeps threeAcrossTwo [] ())) = 2"
    by (simp_all add: threeAcrossTwo_def)
  with res ok show ?thesis by blast
qed

section \<open>Discovery of managed namespaces\<close>

text \<open>The label constants of \<^verbatim>\<open>ImportAKSProjects.tsx\<close>.\<close>

definition PROJECT_ID_LABEL :: string where
  "PROJECT_ID_LABEL = ''headlamp.dev/project-id''"

definition PROJECT_MANAGED_BY_LABEL :: string where
  "PROJECT_MANAGED_BY_LABEL = ''headlamp.dev/project-managed-by''"

definition PROJECT_MANAGED_BY_AKS_DESKTOP :: string where
  "PROJECT_MANAGED_BY_AKS_DESKTOP = ''aks-desktop''"

subsection \<open>discoverNamespaces\<close>

text \<open>
  The revision under \<^verbatim>\<open>src/plugins\<close> lists the managed namespaces of a subscription and
  fetches the details of each one. The two queries are outside the repository: they are
  parameters, and each one returns or throws. The labels are those under
  \<^verbatim>\<open>details?.properties?.labels\<close>, \<open>None\<close> when a link of the chain is missing.
\<close>

type_synonym labels = "(string \<times> string) list"

record NamespaceData =
  nd_name :: string
  nd_clusterName :: string
  nd_resourceGroup :: string

record detailsQuery =
  q_clusterName :: string
  q_resourceGroup :: string
  q_namespaceName :: string
  q_subscriptionId :: string

record discoveryDeps =
  getManagedNamespacesForSubscription :: "string \<Rightarrow> thrown + NamespaceData list"
  getManagedNamespaceDetails :: "detailsQuery \<Rightarrow> thrown + labels option"

text \<open>
  \<^verbatim>\<open>labels[PROJECT_ID_LABEL]\<close> as a condition, and
  \<^verbatim>\<open>labels[PROJECT_MANAGED_BY_LABEL] === PROJECT_MANAGED_BY_AKS_DESKTOP\<close>.
\<close>

definition hasProjectId :: "labels \<Rightarrow> bool" where
  "hasProjectId ls = (case map_of ls PROJECT_ID_LABEL of None \<Rightarrow> False | Some v \<Rightarrow> v \<noteq> [])"

definition isManagedByAKSDesktop :: "labels \<Rightarrow> bool" where
  "isManagedByAKSDesktop ls \<longleftrightarrow>
     map_of ls PROJECT_MANAGED_BY_LABEL = Some PROJECT_MANAGED_BY_AKS_DESKTOP"

definition detailsFor :: "string \<Rightarrow> NamespaceData \<Rightarrow> detailsQuery" where
  "detailsFor subscription ns =
     \<lparr>q_clusterName = nd_clusterName ns, q_resourceGroup = nd_resourceGroup ns,
      q_namespaceName = nd_name ns, q_subscriptionId = subscription\<rparr>"

text \<open>
  One round of the loop over \<^verbatim>\<open>namespacesData\<close>: a namespace whose details cannot be
  fetched is skipped; one with both labels, in a cluster that is not merged yet, is pushed.
\<close>

definition checkNamespace ::
  "discoveryDeps \<Rightarrow> string \<Rightarrow> string list \<Rightarrow> ImportSelection list \<Rightarrow> NamespaceData \<Rightarrow>
   ImportSelection list" where
  "checkNamespace d subscription mergedClusterNames allNamespaces ns =
     (case getManagedNamespaceDetails d (detailsFor subscription ns) of
        Inl detailError \<Rightarrow> allNamespaces
      | Inr details \<Rightarrow>
          (let ls = (case details of None \<Rightarrow> [] | Some l \<Rightarrow> l) in
           if hasProjectId ls \<and> isManagedByAKSDesktop ls then
             (if \<not> (nd_clusterName ns \<in> set mergedClusterNames) then
                allNamespaces @
                [\<lparr>namespace = \<lparr>ns_name = nd_name ns, ns_clusterName = nd_clusterName ns,
                                ns_resourceGroup = nd_resourceGroup ns,
                                ns_subscriptionId = subscription\<rparr>,
                  projectName = map_of ls PROJECT_ID_LABEL,
                  selected = True, clusterMerged = False\<rparr>]
              else allNamespaces)
           else allNamespaces))"

text \<open>
  \<^verbatim>\<open>discoverNamespaces\<close>: the namespaces shown afterwards and the error banner.
  \<open>clustersConf\<close> maps the keys of the active configuration to the names of its clusters.
\<close>

definition discoverNamespaces ::
  "discoveryDeps \<Rightarrow> string option \<Rightarrow> (string \<times> string) list option \<Rightarrow>
   ImportSelection list \<Rightarrow> ImportSelection list \<times> string" where
  "discoverNamespaces d selectedSubscription clustersConf shown =
     (case selectedSubscription of
        None \<Rightarrow> (shown, [])
      | Some subscription \<Rightarrow>
          (let mergedClusterNames = map snd (orEmpty clustersConf) in
           case getManagedNamespacesForSubscription d subscription of
             Inl err \<Rightarrow> ([], ''Failed to discover managed namespaces'')
           | Inr namespacesData \<Rightarrow>
               if namespacesData = [] then
                 ([], ''No managed namespaces found in this subscription.'')
               else
                 (let allNamespaces =
                        foldl (checkNamespace d subscription mergedClusterNames) [] namespacesData
                  in (allNamespaces,
                      if allNamespaces = [] then
                        ''No AKS desktop projects found in unmerged clusters. '' @
                        ''Managed namespaces must have the required project labels.''
                      else []))))"

subsection \<open>loadNamespaces\<close>

text \<open>
  The revision \<^verbatim>\<open>src/unnamed/part_001\<close> asks the resource graph once. A row of the answer
  has a name, an id, a resource group, a subscription and, under
  \<^verbatim>\<open>properties.labels\<close>, its labels. The command and \<^verbatim>\<open>JSON.parse(stdout).data\<close> are
  parameters.
\<close>

record GraphRow =
  row_name :: string
  row_id :: string
  row_resourceGroup :: string
  row_subscriptionId :: string
  row_labels :: "labels option"

record queryDeps =
  runCommandAsync :: "string \<Rightarrow> string list \<Rightarrow> string \<times> string"
  parseData :: "string \<Rightarrow> thrown + GraphRow list"
  desktopPlatform :: string

text \<open>
  \<^verbatim>\<open>str.match(/managedClusters\/([^/]+)/)\<close>: the first place where the literal is followed
  by a character other than a slash, and the run of such characters from there; the empty
  string when there is none.
\<close>

fun getClusterName :: "string \<Rightarrow> string" where
  "getClusterName [] = []"
| "getClusterName (c # cs) =
     (if startsWith (c # cs) ''managedClusters/'' \<and>
         takeWhile (\<lambda>x. x \<noteq> CHR ''/'') (drop 16 (c # cs)) \<noteq> []
      then takeWhile (\<lambda>x. x \<noteq> CHR ''/'') (drop 16 (c # cs))
      else getClusterName cs)"

text \<open>The query: it filters on the marker label only.\<close>

definition graphQuery :: string where
  "graphQuery = ''resources | where type =~ '' @ [CHR 0x27] @
     ''microsoft.containerservice/managedclusters/managednamespaces'' @ [CHR 0x27] @
     '' | where properties['' @ [CHR 0x27] @ ''labels'' @ [CHR 0x27] @ '']['' @ [CHR 0x27] @
     PROJECT_MANAGED_BY_LABEL @ [CHR 0x27] @ ''] == '' @ [CHR 0x27] @
     PROJECT_MANAGED_BY_AKS_DESKTOP @ [CHR 0x27]"

definition graphQueryArgs :: "queryDeps \<Rightarrow> string list" where
  "graphQueryArgs d =
     [''graph'', ''query'', ''-q'',
      if desktopPlatform d = ''win32'' then [CHR 0x22] @ graphQuery @ [CHR 0x22] else graphQuery,
      ''--output'', ''json'']"

text \<open>
  The function mapped over the rows. Reading a label of a row without labels raises a
  TypeError, which ends \<^verbatim>\<open>loadNamespaces\<close>.
\<close>

definition rowSelection :: "GraphRow \<Rightarrow> thrown + ImportSelection" where
  "rowSelection n =
     (case row_labels n of
        None \<Rightarrow> Inl (ErrorInstance ''TypeError'')
      | Some ls \<Rightarrow>
          Inr \<lparr>namespace = \<lparr>ns_name = row_name n, ns_clusterName = getClusterName (row_id n),
                             ns_resourceGroup = row_resourceGroup n,
                             ns_subscriptionId = row_subscriptionId n\<rparr>,
               projectName = map_of ls ''headlamp.dev/project-id'',
               selected = True, clusterMerged = False\<rparr>)"

fun rowSelections :: "GraphRow list \<Rightarrow> thrown + ImportSelection list" where
  "rowSelections [] = Inr []"
| "rowSelections (n # ns) =
     (case rowSelection n of
        Inl t \<Rightarrow> Inl t
      | Inr s \<Rightarrow> (case rowSelections ns of Inl t \<Rightarrow> Inl t | Inr ss \<Rightarrow> Inr (s # ss)))"

text \<open>
  \<^verbatim>\<open>loadNamespaces\<close>: \<open>Inr\<close> is the list given to \<^verbatim>\<open>setNamespaces\<close>, \<open>Inl\<close> what the
  \<^verbatim>\<open>catch\<close> of the caller receives.
\<close>

definition loadNamespaces :: "queryDeps \<Rightarrow> thrown + ImportSelection list" where
  "loadNamespaces d =
     (let out = runCommandAsync d ''az'' (graphQueryArgs d)
      in if snd out \<noteq> [] then Inl (ErrorInstance (snd out))
         else (case parseData d (fst out) of
                 Inl t \<Rightarrow> Inl t
               | Inr namespaces \<Rightarrow> rowSelections namespaces))"



subsection \<open>Discovery in the words of the specification\<close>

text \<open>
  A candidate is eligible when its details carry both required labels and its cluster is not
  in the active configuration.
\<close>

definition spec_eligible :: "discoveryDeps \<Rightarrow> string \<Rightarrow> string list \<Rightarrow> NamespaceData \<Rightarrow> bool" where
  "spec_eligible d subscription mergedClusterNames ns =
     (case getManagedNamespaceDetails d (detailsFor subscription ns) of
        Inr (Some ls) \<Rightarrow>
          hasProjectId ls \<and> isManagedByAKSDesktop ls \<and>
          nd_clusterName ns \<notin> set mergedClusterNames
      | _ \<Rightarrow> False)"

definition spec_listed :: "discoveryDeps \<Rightarrow> string \<Rightarrow> NamespaceData \<Rightarrow> ImportSelection" where
  "spec_listed d subscription ns =
     \<lparr>namespace = \<lparr>ns_name = nd_name ns, ns_clusterName = nd_clusterName ns,
                    ns_resourceGroup = nd_resourceGroup ns, ns_subscriptionId = subscription\<rparr>,
      projectName =
        (case getManagedNamespaceDetails d (detailsFor subscription ns) of
           Inr (Some ls) \<Rightarrow> map_of ls PROJECT_ID_LABEL
         | _ \<Rightarrow> None),
      selected = True, clusterMerged = False\<rparr>"

definition spec_rowListed :: "GraphRow \<Rightarrow> ImportSelection" where
  "spec_rowListed n =
     \<lparr>namespace = \<lparr>ns_name = row_name n, ns_clusterName = getClusterName (row_id n),
                    ns_resourceGroup = row_resourceGroup n,
                    ns_subscriptionId = row_subscriptionId n\<rparr>,
      projectName = (case row_labels n of None \<Rightarrow> None | Some ls \<Rightarrow> map_of ls PROJECT_ID_LABEL),
      selected = True, clusterMerged = False\<rparr>"

subsection \<open>Sample answers of the two queries\<close>

definition bothLabels :: labels where
  "bothLabels = [(''headlamp.dev/project-id'', ''shop''),
                 (''headlamp.dev/project-managed-by'', ''aks-desktop'')]"

definition markerOnly :: labels where
  "markerOnly = [(''headlamp.dev/project-managed-by'', ''aks-desktop'')]"

definition sampleData :: "NamespaceData list" where
  "sampleData = [\<lparr>nd_name = ''shop'', nd_clusterName = ''aks-a'', nd_resourceGroup = ''rg''\<rparr>,
                 \<lparr>nd_name = ''plain'', nd_clusterName = ''aks-a'', nd_resourceGroup = ''rg''\<rparr>,
                 \<lparr>nd_name = ''shop'', nd_clusterName = ''aks-merged'', nd_resourceGroup = ''rg''\<rparr>,
                 \<lparr>nd_name = ''gone'', nd_clusterName = ''aks-a'', nd_resourceGroup = ''rg''\<rparr>]"

definition sampleDiscovery :: discoveryDeps where
  "sampleDiscovery =
     \<lparr>getManagedNamespacesForSubscription = (\<lambda>sub. Inr sampleData),
      getManagedNamespaceDetails =
        (\<lambda>q. if q_namespaceName q = ''shop'' then Inr (Some bothLabels)
             else if q_namespaceName q = ''plain'' then Inr (Some markerOnly)
             else Inl (ErrorInstance ''not found''))\<rparr>"

definition sampleRows :: "GraphRow list" where
  "sampleRows =
     [\<lparr>row_name = ''plain'',
       row_id = ''/subscriptions/sub/resourceGroups/rg/providers/Microsoft.ContainerService/managedClusters/aks-merged/managedNamespaces/plain'',
       row_resourceGroup = ''rg'', row_subscriptionId = ''sub'', row_labels = Some markerOnly\<rparr>]"

definition sampleQuery :: queryDeps where
  "sampleQuery =
     \<lparr>runCommandAsync = (\<lambda>cmd args. (''rows'', [])),
      parseData = (\<lambda>out. if out = ''rows'' then Inr sampleRows
                          else Inl (ErrorInstance ''Unexpected token'')),
      desktopPlatform = ''linux''\<rparr>"

section \<open>Properties of the discovery\<close>

lemma hasProjectId_empty: "\<not> hasProjectId []"
  by (simp add: hasProjectId_def)

lemma checkNamespace_spec:
  "checkNamespace d sub merged acc ns =
     (if spec_eligible d sub merged ns then acc @ [spec_listed d sub ns] else acc)"
proof (cases "getManagedNamespaceDetails d (detailsFor sub ns)")
  case (Inl t)
  then show ?thesis by (simp add: checkNamespace_def spec_eligible_def)
next
  case (Inr details)
  show ?thesis
  proof (cases details)
    case None
    with Inr show ?thesis
      by (simp add: checkNamespace_def spec_eligible_def hasProjectId_empty)
  next
    case (Some ls)
    with Inr show ?thesis
      by (simp add: checkNamespace_def spec_eligible_def spec_listed_def)
  qed
qed

lemma foldl_checkNamespace:
  "foldl (checkNamespace d sub merged) acc data =
     acc @ map (spec_listed d sub) (filter (spec_eligible d sub merged) data)"
  by (induction data arbitrary: acc) (simp_all add: checkNamespace_spec)

lemma discoverNamespaces_list:
  assumes "getManagedNamespacesForSubscription d sub = Inr data"
  shows "fst (discoverNamespaces d (Some sub) conf shown) =
           map (spec_listed d sub) (filter (spec_eligible d sub (map snd (orEmpty conf))) data)"
  using assms by (simp add: discoverNamespaces_def Let_def foldl_checkNamespace)

lemma rowSelections_all:
  assumes "\<forall>row\<in>set rows. row_labels row \<noteq> None"
  shows "rowSelections rows = Inr (map spec_rowListed rows)"
  using assms
  by (induction rows) (auto simp: rowSelection_def spec_rowListed_def PROJECT_ID_LABEL_def)


text \<open>
  C9, as the code has it. \<^verbatim>\<open>discoverNamespaces\<close> lists exactly the candidates whose
  details carry a non-empty project-id label and the marker label \<open>aks-desktop\<close> and whose
  cluster is not in the active configuration, in the order of the candidates.
  \<^verbatim>\<open>loadNamespaces\<close> lists every row the resource graph returns: the query asks for the
  marker label, and neither the project-id label nor the active configuration is looked at.
\<close>

theorem discovery_lists:
  assumes "getManagedNamespacesForSubscription d sub = Inr data"
      and "runCommandAsync q ''az'' (graphQueryArgs q) = (out, [])"
      and "parseData q out = Inr rows"
      and "\<forall>row\<in>set rows. row_labels row \<noteq> None"
  shows "fst (discoverNamespaces d (Some sub) conf shown) =
           map (spec_listed d sub) (filter (spec_eligible d sub (map snd (orEmpty conf))) data) \<and>
         (\<forall>item\<in>set (fst (discoverNamespaces d (Some sub) conf shown)).
            ns_clusterName (namespace item) \<notin> snd ` set (orEmpty conf) \<and>
            (\<exists>ns ls. ns \<in> set data \<and> item = spec_listed d sub ns \<and>
               getManagedNamespaceDetails d (detailsFor sub ns) = Inr (Some ls) \<and>
               hasProjectId ls \<and> isManagedByAKSDesktop ls)) \<and>
         loadNamespaces q = Inr (map spec_rowListed rows)"
proof (intro conjI ballI)
  show list: "fst (discoverNamespaces d (Some sub) conf shown) =
      map (spec_listed d sub) (filter (spec_eligible d sub (map snd (orEmpty conf))) data)"
    using assms(1) by (rule discoverNamespaces_list)
  fix item
  assume "item \<in> set (fst (discoverNamespaces d (Some sub) conf shown))"
  then obtain ns where ns: "ns \<in> set data" "item = spec_listed d sub ns"
      and el: "spec_eligible d sub (map snd (orEmpty conf)) ns"
    unfolding list by auto
  from el obtain ls where ls: "getManagedNamespaceDetails d (detailsFor sub ns) = Inr (Some ls)"
      "hasProjectId ls" "isManagedByAKSDesktop ls"
      "nd_clusterName ns \<notin> set (map snd (orEmpty conf))"
    by (auto simp: spec_eligible_def split: sum.splits option.splits)
  from ns(2) ls(4) show "ns_clusterName (namespace item) \<notin> snd ` set (orEmpty conf)"
    by (simp add: spec_listed_def)
  from ns ls show "\<exists>ns ls. ns \<in> set data \<and> item = spec_listed d sub ns \<and>
               getManagedNamespaceDetails d (detailsFor sub ns) = Inr (Some ls) \<and>
               hasProjectId ls \<and> isManagedByAKSDesktop ls"
    by blast
next
  show "loadNamespaces q = Inr (map spec_rowListed rows)"
    using assms(2-4) by (simp add: loadNamespaces_def Let_def rowSelections_all)
qed

theorem discovery_lists_witness:
  "fst (discoverNamespaces sampleDiscovery (Some ''sub'') (Some [(''merged'', ''aks-merged'')]) []) =
     [\<lparr>namespace = \<lparr>ns_name = ''shop'', ns_clusterName = ''aks-a'', ns_resourceGroup = ''rg'',
                     ns_subscriptionId = ''sub''\<rparr>,
       projectName = Some ''shop'', selected = True, clusterMerged = False\<rparr>] \<and>
   loadNamespaces sampleQuery = Inr (map spec_rowListed sampleRows)"
proof -
  have a: "getManagedNamespacesForSubscription sampleDiscovery ''sub'' = Inr sampleData"
    by (simp add: sampleDiscovery_def)
  have b: "runCommandAsync sampleQuery ''az'' (graphQueryArgs sampleQuery) = (''rows'', [])"
    by (simp add: sampleQuery_def)
  have c: "parseData sampleQuery ''rows'' = Inr sampleRows"
    by (simp add: sampleQuery_def)
  have e: "\<forall>row\<in>set sampleRows. row_labels row \<noteq> None"
    by (simp add: sampleRows_def)
  have f: "map (spec_listed sampleDiscovery ''sub'')
       (filter (spec_eligible sampleDiscovery ''sub''
          (map snd (orEmpty (Some [(''merged'', ''aks-merged'')])))) sampleData) =
     [\<lparr>namespace = \<lparr>ns_name = ''shop'', ns_clusterName = ''aks-a'', ns_resourceGroup = ''rg'',
                     ns_subscriptionId = ''sub''\<rparr>,
       projectName = Some ''shop'', selected = True, clusterMerged = False\<rparr>]"
    by (simp add: sampleData_def spec_eligible_def spec_listed_def sampleDiscovery_def
          detailsFor_def orEmpty_def hasProjectId_def isManagedByAKSDesktop_def bothLabels_def
          markerOnly_def PROJECT_ID_LABEL_def PROJECT_MANAGED_BY_LABEL_def
          PROJECT_MANAGED_BY_AKS_DESKTOP_def)
  from discovery_lists[OF a b c e, of "Some [(''merged'', ''aks-merged'')]" "[]"]
  show ?thesis unfolding f by blast
qed

text \<open>
  C9 as stated fails on \<^verbatim>\<open>loadNamespaces\<close>: a row with the marker label and no
  project-id label is listed, also when its cluster \<open>aks-merged\<close> is in the active
  configuration, which the function never reads.
\<close>

theorem discovery_lists_counterexample:
  "loadNamespaces sampleQuery =
     Inr [\<lparr>namespace = \<lparr>ns_name = ''plain'', ns_clusterName = ''aks-merged'',
                         ns_resourceGroup = ''rg'', ns_subscriptionId = ''sub''\<rparr>,
           projectName = None, selected = True, clusterMerged = False\<rparr>] \<and>
   map_of markerOnly ''headlamp.dev/project-id'' = None"
proof -
  have cluster: "getClusterName
      ''/subscriptions/sub/resourceGroups/rg/providers/Microsoft.ContainerService/managedClusters/aks-merged/managedNamespaces/plain''
      = ''aks-merged''"
    by code_simp
  show ?thesis
    by (simp add: loadNamespaces_def Let_def sampleQuery_def sampleRows_def rowSelection_def
          markerOnly_def cluster del: getClusterName.simps)
qed

end
